theory Spec2Isabelle
  imports Complex_Main "HOL-Library.Word" "HOL-Library.Log_Nat"
begin

unbundle bit_operations_syntax

section \<open>Machine types and failures\<close>

text \<open>
  The model is the 64-bit build (\<open>__WORDSIZE == 64\<close>): \<open>size_t\<close>, \<open>uintptr_t\<close> and
  \<open>unsigned long\<close> are 64-bit words whose arithmetic wraps around.
\<close>

type_synonym size_t = "64 word"
type_synonym uintptr_t = "64 word"
type_synonym uint8_t = "8 word"

text \<open>
  A failed \<open>CHECK\<close> stops the process (\<open>CheckFailed\<close>), as do \<open>abort()\<close> and
  \<open>__asan_show_stats_and_abort()\<close> after a diagnostic (\<open>Aborted\<close>). \<open>Undefined\<close> marks
  behaviour the C++ standard leaves undefined (a shift by the word width, a null dereference).
\<close>

datatype error = CheckFailed | Aborted | Undefined

definition bindE :: "error + 'a \<Rightarrow> ('a \<Rightarrow> error + 'b) \<Rightarrow> error + 'b" where
  "bindE m f = (case m of Inl e \<Rightarrow> Inl e | Inr x \<Rightarrow> f x)"

text \<open>
  Constants and flags that the allocator reads but that are declared in headers outside the
  two source files: \<open>kNumberOfSizeClasses\<close> (asan_allocator.h), \<open>kPageSize\<close> (asan_int.h),
  \<open>SHADOW_GRANULARITY\<close>, the mapping \<open>MemToShadow\<close>, the poison magics and the shadow writer
  \<open>PoisonShadowPartialRightRedzone\<close> (asan_mapping.h, asan_int.h), the fake-stack constants
  (asan_allocator.h), \<open>AsanThread::kInvalidTid\<close> (asan_thread.h), and the run-time flags \<open>__asan_flag_*\<close>, which the allocator never writes.
  They are parameters of the model.
\<close>

record config =
  kNumberOfSizeClasses :: size_t
  kPageSize :: size_t
  SHADOW_GRANULARITY :: size_t
  MemToShadow :: "uintptr_t \<Rightarrow> uintptr_t"
  kAsanHeapLeftRedzoneMagic :: uint8_t
  kAsanHeapRightRedzoneMagic :: uint8_t
  kAsanHeapFreeMagic :: uint8_t
  kAsanStackAfterReturnMagic :: uint8_t
  PoisonShadowPartialRightRedzone ::
    "uintptr_t \<Rightarrow> size_t \<Rightarrow> size_t \<Rightarrow> size_t \<Rightarrow> uint8_t
       \<Rightarrow> (uintptr_t \<Rightarrow> uint8_t) \<Rightarrow> (uintptr_t \<Rightarrow> uint8_t)"
  kInvalidTid :: int
  kMinStackFrameSizeLog :: size_t
  kFakeStackNumberOfSizeClasses :: size_t
  kMaxStackMallocSize :: size_t
  flag_redzone :: size_t
  flag_quarantine_size :: size_t
  flag_stats :: nat
  flag_debug :: bool
  flag_v :: int

definition REDZONE :: "config \<Rightarrow> size_t" where
  "REDZONE K = flag_redzone K"

definition kMinAllocSize :: "config \<Rightarrow> size_t" where
  "kMinAllocSize K = REDZONE K * 2"

definition kMinMmapSize :: "config \<Rightarrow> size_t" where
  "kMinMmapSize K = kPageSize K * 1024"

definition kMaxAvailableRam :: size_t where
  "kMaxAvailableRam = push_bit 30 32"

definition kMaxThreadLocalQuarantine :: size_t where
  "kMaxThreadLocalQuarantine = push_bit 20 1"

definition kMaxSizeForThreadLocalFreeList :: size_t where
  "kMaxSizeForThreadLocalFreeList = push_bit 17 1"

definition kMallocSizeClassStepLog :: size_t where
  "kMallocSizeClassStepLog = 26"

definition kMallocSizeClassStep :: size_t where
  "kMallocSizeClassStep = push_bit (unat kMallocSizeClassStepLog) 1"

definition kMaxAllowedMallocSize :: size_t where
  "kMaxAllowedMallocSize = push_bit 30 8"

section \<open>Bit helpers\<close>

definition IsAligned :: "uintptr_t \<Rightarrow> uintptr_t \<Rightarrow> bool" where
  "IsAligned a alignment \<longleftrightarrow> a AND (alignment - 1) = 0"

definition IsPowerOfTwo :: "size_t \<Rightarrow> bool" where
  "IsPowerOfTwo x \<longleftrightarrow> x AND (x - 1) = 0"

text \<open>
  \<open>__builtin_ctzl\<close> counts the trailing zero bits and \<open>__builtin_clzl\<close> the leading zero
  bits of a 64-bit value; both are undefined at 0, where every caller has checked before.
\<close>

fun ctz_nat :: "nat \<Rightarrow> nat" where
  "ctz_nat n = (if n = 0 \<or> odd n then 0 else Suc (ctz_nat (n div 2)))"

declare ctz_nat.simps [simp del]

definition builtin_ctzl :: "size_t \<Rightarrow> nat" where
  "builtin_ctzl x = ctz_nat (unat x)"

definition builtin_clzl :: "size_t \<Rightarrow> nat" where
  "builtin_clzl x = 64 - floorlog 2 (unat x)"

definition Log2 :: "size_t \<Rightarrow> error + size_t" where
  "Log2 x = (if IsPowerOfTwo x then Inr (of_nat (builtin_ctzl x)) else Inl CheckFailed)"

definition RoundUpTo :: "size_t \<Rightarrow> size_t \<Rightarrow> error + size_t" where
  "RoundUpTo sz boundary =
     (if IsPowerOfTwo boundary then Inr ((sz + boundary - 1) AND NOT (boundary - 1))
      else Inl CheckFailed)"

definition RoundUpToPowerOfTwo :: "size_t \<Rightarrow> error + size_t" where
  "RoundUpToPowerOfTwo sz =
     (if sz = 0 then Inl CheckFailed
      else if IsPowerOfTwo sz then Inr sz
      else let up = 64 - builtin_clzl sz in
        if 64 \<le> up then Inl Undefined
        else if \<not> sz < push_bit up 1 then Inl CheckFailed
        else if \<not> sz > push_bit (up - 1) 1 then Inl CheckFailed
        else Inr (push_bit up 1))"

section \<open>Size classes\<close>

definition SizeClassToSize :: "config \<Rightarrow> uint8_t \<Rightarrow> error + size_t" where
  "SizeClassToSize K c =
     (if \<not> ucast c < kNumberOfSizeClasses K then Inl CheckFailed
      else if ucast c \<le> kMallocSizeClassStepLog then Inr (push_bit (unat c) 1)
      else Inr ((ucast c - kMallocSizeClassStepLog) * kMallocSizeClassStep))"

definition SizeToSizeClass :: "config \<Rightarrow> size_t \<Rightarrow> error + uint8_t" where
  "SizeToSizeClass K sz =
     bindE (if sz \<le> kMallocSizeClassStep
            then bindE (RoundUpToPowerOfTwo sz) (\<lambda>rounded.
                 bindE (Log2 rounded) (\<lambda>l. Inr (ucast l :: uint8_t)))
            else Inr (ucast ((sz + kMallocSizeClassStep - 1) div kMallocSizeClassStep
                             + kMallocSizeClassStepLog)))
       (\<lambda>res. if \<not> ucast res < kNumberOfSizeClasses K then Inl CheckFailed
               else bindE (SizeClassToSize K res) (\<lambda>s.
                 if sz \<le> s then Inr res else Inl CheckFailed))"

text \<open>
  The size-class rule in the specification's words: the class of a size is the ceiling of its
  binary logarithm up to the step, and the ceiling of size / step plus \<open>log2 step\<close> beyond it.
\<close>

definition class_of_spec :: "nat \<Rightarrow> nat" where
  "class_of_spec n =
     (if n \<le> 2 ^ 26 then nat \<lceil>log 2 (real n)\<rceil> else nat \<lceil>real n / 2 ^ 26\<rceil> + 26)"

section \<open>Chunks, lists and the allocator state\<close>

definition CHUNK_AVAILABLE :: "16 word" where "CHUNK_AVAILABLE = 0x573B"
definition CHUNK_ALLOCATED :: "16 word" where "CHUNK_ALLOCATED = 0x3204"
definition CHUNK_QUARANTINE :: "16 word" where "CHUNK_QUARANTINE = 0x1978"
definition CHUNK_MEMALIGN :: "16 word" where "CHUNK_MEMALIGN = 0xDC68"

text \<open>
  A chunk header. Headers live in a typed heap, a map from the header's address to its
  fields; \<open>next = 0\<close> is the null pointer. Thread ids are the source's \<open>int32_t\<close>, which
  never wrap because thread ids are bounded by \<open>kMaxTid\<close>.
\<close>

record ChunkBase =
  chunk_state :: "16 word"
  size_class :: uint8_t
  offset :: "32 word"
  alloc_tid :: int
  free_tid :: int
  used_size :: size_t
  "next" :: uintptr_t

text \<open>\<open>sizeof(ChunkBase)\<close> on the 64-bit build: 2 + 1 (+1) + 4 + 4 + 4 + 8 + 8 bytes.\<close>

definition sizeof_ChunkBase :: size_t where
  "sizeof_ChunkBase = 32"

type_synonym AsanStackTrace = "uintptr_t list"

record AsanChunkFifoList =
  fifo_first :: uintptr_t
  fifo_last :: uintptr_t
  fifo_size :: size_t

record PageGroup =
  pg_beg :: uintptr_t
  pg_end :: uintptr_t
  size_of_chunk :: size_t

definition InRange :: "PageGroup \<Rightarrow> uintptr_t \<Rightarrow> bool" where
  "InRange g addr \<longleftrightarrow> pg_beg g \<le> addr \<and> addr < pg_end g"

text \<open>
  \<open>AsanThreadLocalMallocStorage\<close> holds a quarantine and the free-list heads by size class.
  \<open>MallocInfo\<close> has the same two members and the page-group registry, so it is modelled as an
  extension of that record; \<open>n_page_groups_\<close> is the length of the registry.
\<close>

record AsanThreadLocalMallocStorage =
  quarantine :: AsanChunkFifoList
  free_lists :: "nat \<Rightarrow> uintptr_t"

record MallocInfo = AsanThreadLocalMallocStorage +
  page_groups :: "PageGroup list"

record FifoList =
  node_first :: uintptr_t
  node_last :: uintptr_t

record AsanFakeStack =
  stack_size :: size_t
  alive :: bool
  allocated_size_classes :: "nat \<Rightarrow> uintptr_t"
  size_classes :: "nat \<Rightarrow> FifoList"

record AsanThread =
  malloc_storage :: AsanThreadLocalMallocStorage
  FakeStack :: AsanFakeStack

record AsanStats =
  mallocs :: size_t
  malloced :: size_t
  malloced_redzones :: size_t
  malloced_by_size :: "nat \<Rightarrow> size_t"
  allocated_since_last_stats :: size_t
  malloc_large :: size_t
  malloc_small_slow :: size_t
  frees :: size_t
  freed :: size_t
  freed_by_size :: "nat \<Rightarrow> size_t"
  real_frees :: size_t
  really_freed :: size_t
  really_freed_by_size :: "nat \<Rightarrow> size_t"
  reallocs :: size_t
  realloced :: size_t
  mmaps :: size_t
  mmaped :: size_t
  mmaped_by_size :: "nat \<Rightarrow> size_t"

text \<open>What the allocator prints, one constructor per \<open>Printf\<close> or printing call.\<close>

datatype event =
    Msg_OutOfMemory string size_t int
  | Msg_PrintCurrentStack
  | Msg_PrintStack AsanStackTrace
  | Msg_AsanMmap uintptr_t uintptr_t
  | Msg_Located uintptr_t
  | Msg_Inside size_t
  | Msg_Left size_t
  | Msg_Right size_t
  | Msg_Somewhere
  | Msg_Region size_t uintptr_t uintptr_t
  | Msg_Allocate size_t size_t uint8_t size_t
  | Msg_PrintStats
  | Msg_PrintStatus size_t
  | Msg_DoubleFree uintptr_t
  | Msg_FreeNotMalloced uintptr_t
  | Msg_ShowStats

text \<open>
  The whole state. \<open>heap\<close> holds the chunk headers, \<open>bytes\<close> the byte memory (user bodies and
  the shadow), \<open>stack_slots\<close> the compressed stack traces by the address of their slot,
  \<open>fifo_nodes\<close> the link word that a free fake-stack frame keeps in its own storage.
  \<open>threads\<close> gives every thread id its thread-local record. \<open>os_mmap\<close> is the operating
  system: the results of the coming \<open>__asan_mmap\<close> calls, each as a function of the size
  asked for; with none left the call fails as \<open>MAP_FAILED\<close> does.
\<close>

record state =
  heap :: "uintptr_t \<Rightarrow> ChunkBase"
  bytes :: "uintptr_t \<Rightarrow> uint8_t"
  stack_slots :: "uintptr_t \<Rightarrow> AsanStackTrace"
  fifo_nodes :: "uintptr_t \<Rightarrow> uintptr_t"
  malloc_info :: MallocInfo
  total_mmaped :: size_t
  asan_stats :: AsanStats
  threads :: "int \<Rightarrow> AsanThread"
  out :: "event list"
  os_mmap :: "(size_t \<Rightarrow> uintptr_t) list"

subsection \<open>Computations that may stop the process\<close>

type_synonym 'a M = "state \<Rightarrow> (error \<times> state) + ('a \<times> state)"

definition returnM :: "'a \<Rightarrow> 'a M" where
  "returnM x = (\<lambda>s. Inr (x, s))"

definition failM :: "error \<Rightarrow> 'a M" where
  "failM e = (\<lambda>s. Inl (e, s))"

definition bindM :: "'a M \<Rightarrow> ('a \<Rightarrow> 'b M) \<Rightarrow> 'b M" where
  "bindM m f = (\<lambda>s. case m s of Inl x \<Rightarrow> Inl x | Inr (a, s') \<Rightarrow> f a s')"

definition thenM :: "unit M \<Rightarrow> 'b M \<Rightarrow> 'b M" where
  "thenM m n = bindM m (\<lambda>_. n)"

definition gets :: "(state \<Rightarrow> 'a) \<Rightarrow> 'a M" where
  "gets f = (\<lambda>s. Inr (f s, s))"

definition modify :: "(state \<Rightarrow> state) \<Rightarrow> unit M" where
  "modify f = (\<lambda>s. Inr ((), f s))"

definition CHECK :: "bool \<Rightarrow> unit M" where
  "CHECK b = (if b then returnM () else failM CheckFailed)"

definition liftE :: "error + 'a \<Rightarrow> 'a M" where
  "liftE r = (case r of Inl e \<Rightarrow> failM e | Inr x \<Rightarrow> returnM x)"

definition whenM :: "bool \<Rightarrow> unit M \<Rightarrow> unit M" where
  "whenM b m = (if b then m else returnM ())"

definition Printf :: "event \<Rightarrow> unit M" where
  "Printf e = modify (\<lambda>s. s\<lparr>out := out s @ [e]\<rparr>)"

text \<open>Reading and writing one header; dereferencing the null pointer is undefined.\<close>

definition deref :: "uintptr_t \<Rightarrow> ChunkBase M" where
  "deref p = (if p = 0 then failM Undefined else gets (\<lambda>s. heap s p))"

definition update_chunk :: "uintptr_t \<Rightarrow> (ChunkBase \<Rightarrow> ChunkBase) \<Rightarrow> unit M" where
  "update_chunk p f =
     (if p = 0 then failM Undefined else modify (\<lambda>s. s\<lparr>heap := (heap s)(p := f (heap s p))\<rparr>))"

definition update_stats :: "config \<Rightarrow> (AsanStats \<Rightarrow> AsanStats) \<Rightarrow> unit M" where
  "update_stats K f = whenM (flag_stats K \<noteq> 0) (modify (\<lambda>s. s\<lparr>asan_stats := f (asan_stats s)\<rparr>))"

text \<open>
  The storage a list operation works on: the global \<open>malloc_info\<close> or the thread-local
  storage of one thread.
\<close>

datatype storage_ref = Global | Local int

definition get_quarantine :: "storage_ref \<Rightarrow> state \<Rightarrow> AsanChunkFifoList" where
  "get_quarantine r s =
     (case r of Global \<Rightarrow> quarantine (malloc_info s)
      | Local t \<Rightarrow> quarantine (malloc_storage (threads s t)))"

definition set_quarantine :: "storage_ref \<Rightarrow> AsanChunkFifoList \<Rightarrow> state \<Rightarrow> state" where
  "set_quarantine r q s =
     (case r of Global \<Rightarrow> s\<lparr>malloc_info := (malloc_info s)\<lparr>quarantine := q\<rparr>\<rparr>
      | Local t \<Rightarrow> s\<lparr>threads := (threads s)(t := (threads s t)
          \<lparr>malloc_storage := (malloc_storage (threads s t))\<lparr>quarantine := q\<rparr>\<rparr>)\<rparr>)"

definition get_free_list :: "storage_ref \<Rightarrow> nat \<Rightarrow> state \<Rightarrow> uintptr_t" where
  "get_free_list r c s =
     (case r of Global \<Rightarrow> free_lists (malloc_info s) c
      | Local t \<Rightarrow> free_lists (malloc_storage (threads s t)) c)"

definition set_free_list :: "storage_ref \<Rightarrow> nat \<Rightarrow> uintptr_t \<Rightarrow> state \<Rightarrow> state" where
  "set_free_list r c p s =
     (case r of Global \<Rightarrow>
        s\<lparr>malloc_info := (malloc_info s)\<lparr>free_lists := (free_lists (malloc_info s))(c := p)\<rparr>\<rparr>
      | Local t \<Rightarrow> s\<lparr>threads := (threads s)(t := (threads s t)
          \<lparr>malloc_storage := (malloc_storage (threads s t))
             \<lparr>free_lists := (free_lists (malloc_storage (threads s t)))(c := p)\<rparr>\<rparr>)\<rparr>)"


section \<open>Shadow poisoning and page mapping\<close>

definition real_memset :: "uintptr_t \<Rightarrow> uint8_t \<Rightarrow> size_t \<Rightarrow> unit M" where
  "real_memset p v n = modify (\<lambda>s. s\<lparr>bytes := (\<lambda>a. if a - p < n then v else bytes s a)\<rparr>)"

definition real_memcpy :: "uintptr_t \<Rightarrow> uintptr_t \<Rightarrow> size_t \<Rightarrow> unit M" where
  "real_memcpy dst src n =
     modify (\<lambda>s. s\<lparr>bytes := (\<lambda>a. if a - dst < n then bytes s (src + (a - dst)) else bytes s a)\<rparr>)"

definition PoisonShadow :: "config \<Rightarrow> uintptr_t \<Rightarrow> size_t \<Rightarrow> uint8_t \<Rightarrow> unit M" where
  "PoisonShadow K mem sz poison =
     thenM (CHECK (IsAligned mem (SHADOW_GRANULARITY K)))
    (thenM (CHECK (IsAligned (mem + sz) (SHADOW_GRANULARITY K)))
    (let shadow_beg = MemToShadow K mem;
         shadow_end = MemToShadow K (mem + sz);
         poison' = (if poison \<noteq> 0 \<and> SHADOW_GRANULARITY K = 128 then 0xff else poison)
     in real_memset shadow_beg poison' (shadow_end - shadow_beg)))"

definition PoisonMemoryPartialRightRedzone :: "config \<Rightarrow> uintptr_t \<Rightarrow> size_t \<Rightarrow> unit M" where
  "PoisonMemoryPartialRightRedzone K mem sz =
     thenM (CHECK (sz \<le> REDZONE K))
    (thenM (CHECK (IsAligned mem (REDZONE K)))
    (thenM (CHECK (IsPowerOfTwo (SHADOW_GRANULARITY K)))
    (thenM (CHECK (IsPowerOfTwo (REDZONE K)))
    (thenM (CHECK (REDZONE K \<ge> SHADOW_GRANULARITY K))
    (modify (\<lambda>s. s\<lparr>bytes := PoisonShadowPartialRightRedzone K (MemToShadow K mem) sz
        (REDZONE K) (SHADOW_GRANULARITY K) (kAsanHeapRightRedzoneMagic K) (bytes s)\<rparr>))))))"

text \<open>
  \<open>OutOfMemoryMessage\<close> prints the id of the current thread through
  \<open>AsanThread::GetCurrent()->tid()\<close>, a null dereference when there is no current thread.
  The current thread of the caller is the argument \<open>cur\<close> of every operation.
\<close>

definition OutOfMemoryMessage :: "int option \<Rightarrow> string \<Rightarrow> size_t \<Rightarrow> unit M" where
  "OutOfMemoryMessage cur mem_type sz =
     (case cur of None \<Rightarrow> failM Undefined | Some t \<Rightarrow> Printf (Msg_OutOfMemory mem_type sz t))"

definition asan_mmap :: "size_t \<Rightarrow> uintptr_t M" where
  "asan_mmap sz = (\<lambda>s. case os_mmap s of [] \<Rightarrow> Inr (- 1, s)
                        | f # fs \<Rightarrow> Inr (f sz, s\<lparr>os_mmap := fs\<rparr>))"

definition MmapNewPagesAndPoisonShadow :: "config \<Rightarrow> int option \<Rightarrow> size_t \<Rightarrow> uintptr_t M" where
  "MmapNewPagesAndPoisonShadow K cur sz =
     thenM (CHECK (IsAligned sz (kPageSize K)))
    (bindM (asan_mmap sz) (\<lambda>res.
     thenM (modify (\<lambda>s. s\<lparr>total_mmaped := total_mmaped s + sz\<rparr>))
    (thenM (if res = - 1
            then thenM (OutOfMemoryMessage cur ''MmapNewPagesAndPoisonShadow'' sz)
                (thenM (Printf Msg_PrintCurrentStack) (failM Aborted))
            else returnM ())
    (thenM (PoisonShadow K res sz (kAsanHeapLeftRedzoneMagic K))
    (thenM (whenM (flag_debug K) (Printf (Msg_AsanMmap res (res + sz))))
    (returnM res))))))"

section \<open>Chunk methods\<close>

definition beg :: "uintptr_t \<Rightarrow> ChunkBase \<Rightarrow> uintptr_t" where
  "beg this h = this + ucast (offset h)"

definition Size :: "config \<Rightarrow> ChunkBase \<Rightarrow> error + size_t" where
  "Size K h = SizeClassToSize K (size_class h)"

definition compressed_alloc_stack :: "config \<Rightarrow> uintptr_t \<Rightarrow> error + uintptr_t" where
  "compressed_alloc_stack K this =
     (if REDZONE K \<ge> sizeof_ChunkBase then Inr (this + sizeof_ChunkBase) else Inl CheckFailed)"

definition compressed_free_stack :: "config \<Rightarrow> uintptr_t \<Rightarrow> error + uintptr_t" where
  "compressed_free_stack K this =
     (if REDZONE K \<ge> sizeof_ChunkBase then Inr (this + REDZONE K) else Inl CheckFailed)"

text \<open>
  \<open>AsanStackTrace::CompressStack\<close> is outside the two files; the model stores the trace in
  the slot it is compressed into.
\<close>

definition CompressStack :: "AsanStackTrace \<Rightarrow> uintptr_t \<Rightarrow> unit M" where
  "CompressStack stack slot = modify (\<lambda>s. s\<lparr>stack_slots := (stack_slots s)(slot := stack)\<rparr>)"

definition AddrIsInside :: "uintptr_t \<Rightarrow> ChunkBase \<Rightarrow> uintptr_t \<Rightarrow> size_t \<Rightarrow> size_t option" where
  "AddrIsInside this h addr access_size =
     (if addr \<ge> beg this h \<and> addr + access_size \<le> beg this h + used_size h
      then Some (addr - beg this h) else None)"

definition AddrIsAtLeft :: "uintptr_t \<Rightarrow> ChunkBase \<Rightarrow> uintptr_t \<Rightarrow> size_t \<Rightarrow> size_t option" where
  "AddrIsAtLeft this h addr access_size =
     (if addr \<ge> this \<and> addr < beg this h then Some (beg this h - addr) else None)"

definition AddrIsAtRight ::
    "config \<Rightarrow> uintptr_t \<Rightarrow> ChunkBase \<Rightarrow> uintptr_t \<Rightarrow> size_t \<Rightarrow> error + size_t option" where
  "AddrIsAtRight K this h addr access_size =
     (if addr + access_size \<ge> beg this h + used_size h
      then bindE (Size K h) (\<lambda>sz.
        if addr < this + sz + REDZONE K
        then (if addr \<le> beg this h + used_size h then Inr (Some 0)
              else Inr (Some (addr - (beg this h + used_size h))))
        else Inr None)
      else Inr None)"

definition DescribeAddress :: "config \<Rightarrow> uintptr_t \<Rightarrow> uintptr_t \<Rightarrow> size_t \<Rightarrow> unit M" where
  "DescribeAddress K this addr access_size =
     bindM (deref this) (\<lambda>h.
     thenM (Printf (Msg_Located addr))
    (thenM (case AddrIsInside this h addr access_size of
              Some off \<Rightarrow> Printf (Msg_Inside off)
            | None \<Rightarrow> (case AddrIsAtLeft this h addr access_size of
                Some off \<Rightarrow> Printf (Msg_Left off)
              | None \<Rightarrow> bindM (liftE (AddrIsAtRight K this h addr access_size)) (\<lambda>r.
                  case r of Some off \<Rightarrow> Printf (Msg_Right off)
                          | None \<Rightarrow> Printf Msg_Somewhere)))
    (Printf (Msg_Region (used_size h) (beg this h) (beg this h + used_size h)))))"

definition PtrToChunk :: "config \<Rightarrow> uintptr_t \<Rightarrow> uintptr_t M" where
  "PtrToChunk K ptr =
     bindM (deref (ptr - REDZONE K)) (\<lambda>h.
       returnM (if chunk_state h = CHUNK_MEMALIGN then next h else ptr - REDZONE K))"

section \<open>The quarantine list\<close>

definition AsanChunkFifoList_PushList :: "storage_ref \<Rightarrow> storage_ref \<Rightarrow> unit M" where
  "AsanChunkFifoList_PushList this q =
     bindM (gets (get_quarantine this)) (\<lambda>self.
     bindM (gets (get_quarantine q)) (\<lambda>other.
     thenM (if fifo_last self \<noteq> 0
            then thenM (CHECK (fifo_first self \<noteq> 0))
                (bindM (deref (fifo_last self)) (\<lambda>l.
                 thenM (CHECK (next l = 0))
                (thenM (update_chunk (fifo_last self) (\<lambda>h. h\<lparr>next := fifo_first other\<rparr>))
                (modify (set_quarantine this (self\<lparr>fifo_last := fifo_last other\<rparr>))))))
            else thenM (CHECK (fifo_first self = 0))
                (modify (set_quarantine this
                   (self\<lparr>fifo_last := fifo_last other, fifo_first := fifo_first other\<rparr>))))
    (thenM (modify (\<lambda>s. set_quarantine this
              ((get_quarantine this s)
                 \<lparr>fifo_size := fifo_size (get_quarantine this s) + fifo_size other\<rparr>) s))
    (modify (set_quarantine q \<lparr>fifo_first = 0, fifo_last = 0, fifo_size = 0\<rparr>)))))"

definition AsanChunkFifoList_Push :: "config \<Rightarrow> storage_ref \<Rightarrow> uintptr_t \<Rightarrow> unit M" where
  "AsanChunkFifoList_Push K this n =
     bindM (deref n) (\<lambda>h.
     thenM (CHECK (next h = 0))
    (bindM (gets (get_quarantine this)) (\<lambda>self.
     thenM (if fifo_last self \<noteq> 0
            then thenM (CHECK (fifo_first self \<noteq> 0))
                (bindM (deref (fifo_last self)) (\<lambda>l.
                 thenM (CHECK (next l = 0))
                (thenM (update_chunk (fifo_last self) (\<lambda>h. h\<lparr>next := n\<rparr>))
                (modify (set_quarantine this (self\<lparr>fifo_last := n\<rparr>))))))
            else thenM (CHECK (fifo_first self = 0))
                (modify (set_quarantine this (self\<lparr>fifo_last := n, fifo_first := n\<rparr>))))
    (bindM (deref n) (\<lambda>h'.
     bindM (liftE (Size K h')) (\<lambda>sz.
     modify (\<lambda>s. set_quarantine this
       ((get_quarantine this s)\<lparr>fifo_size := fifo_size (get_quarantine this s) + sz\<rparr>) s)))))))"

definition AsanChunkFifoList_Pop :: "config \<Rightarrow> storage_ref \<Rightarrow> uintptr_t M" where
  "AsanChunkFifoList_Pop K this =
     bindM (gets (get_quarantine this)) (\<lambda>self.
     thenM (CHECK (fifo_first self \<noteq> 0))
    (let res = fifo_first self in
     bindM (deref res) (\<lambda>h.
     let first' = next h;
         last' = (if first' = 0 then 0 else fifo_last self)
     in thenM (modify (set_quarantine this (self\<lparr>fifo_first := first', fifo_last := last'\<rparr>)))
    (bindM (liftE (Size K h)) (\<lambda>sz.
     thenM (CHECK (fifo_size self \<ge> sz))
    (thenM (modify (\<lambda>s. set_quarantine this
              ((get_quarantine this s)\<lparr>fifo_size := fifo_size (get_quarantine this s) - sz\<rparr>) s))
    (thenM (if last' \<noteq> 0 then bindM (deref last') (\<lambda>l. CHECK (next l = 0)) else returnM ())
    (returnM res))))))))"


section \<open>MallocInfo: free lists, quarantine and page groups\<close>

fun FindPageGroupUnlocked :: "PageGroup list \<Rightarrow> uintptr_t \<Rightarrow> PageGroup option" where
  "FindPageGroupUnlocked [] addr = None"
| "FindPageGroupUnlocked (g # gs) addr =
     (if InRange g addr then Some g else FindPageGroupUnlocked gs addr)"

definition FindPageGroup :: "uintptr_t \<Rightarrow> PageGroup option M" where
  "FindPageGroup addr = gets (\<lambda>s. FindPageGroupUnlocked (page_groups (malloc_info s)) addr)"

text \<open>
  The refill loop of \<open>GetNewChunks\<close>: header \<open>i\<close> sits at \<open>mem + i * size\<close> and links to the
  one carved before it.
\<close>

definition carve_step ::
    "uintptr_t \<Rightarrow> size_t \<Rightarrow> uint8_t \<Rightarrow> nat
       \<Rightarrow> (uintptr_t \<Rightarrow> ChunkBase) \<times> uintptr_t \<Rightarrow> (uintptr_t \<Rightarrow> ChunkBase) \<times> uintptr_t" where
  "carve_step mem sz c i = (\<lambda>(h, res).
     let m = mem + of_nat i * sz
     in (h(m := (h m)\<lparr>chunk_state := CHUNK_AVAILABLE, size_class := c, next := res\<rparr>), m))"

definition carve ::
    "uintptr_t \<Rightarrow> size_t \<Rightarrow> uint8_t \<Rightarrow> nat
       \<Rightarrow> (uintptr_t \<Rightarrow> ChunkBase) \<Rightarrow> (uintptr_t \<Rightarrow> ChunkBase) \<times> uintptr_t" where
  "carve mem sz c n h = fold (carve_step mem sz c) [0..<n] (h, 0)"

definition GetNewChunks :: "config \<Rightarrow> int option \<Rightarrow> uint8_t \<Rightarrow> uintptr_t M" where
  "GetNewChunks K cur c =
     bindM (liftE (SizeClassToSize K c)) (\<lambda>sz.
     thenM (CHECK (IsPowerOfTwo (kMinMmapSize K)))
    (thenM (CHECK (sz < kMinMmapSize K \<or> sz mod kMinMmapSize K = 0))
    (let mmap_size = max sz (kMinMmapSize K) in
     if sz = 0 then failM Undefined else
     let n_chunks = mmap_size div sz in
     thenM (CHECK (n_chunks * sz = mmap_size))
    (let n_chunks' = (if sz < kPageSize K then n_chunks - 1 else n_chunks);
         mmap_size' = (if sz < kPageSize K then mmap_size else mmap_size + kPageSize K)
     in
     thenM (CHECK (n_chunks' > 0))
    (bindM (MmapNewPagesAndPoisonShadow K cur mmap_size') (\<lambda>mem.
     thenM (if flag_stats K \<noteq> 0
            then bindM (liftE (Log2 sz)) (\<lambda>l.
                 modify (\<lambda>s. s\<lparr>asan_stats := (asan_stats s)
                   \<lparr>mmaps := mmaps (asan_stats s) + 1,
                    mmaped := mmaped (asan_stats s) + mmap_size',
                    mmaped_by_size := (mmaped_by_size (asan_stats s))
                      (unat l := mmaped_by_size (asan_stats s) (unat l) + n_chunks')\<rparr>\<rparr>))
            else returnM ())
    (bindM (gets (\<lambda>s. carve mem sz c (unat n_chunks') (heap s))) (\<lambda>(h', res).
     thenM (modify (\<lambda>s. s\<lparr>heap := h'\<rparr>))
    (let pg = \<lparr>pg_beg = mem, pg_end = mem + mmap_size', size_of_chunk = sz\<rparr> in
     bindM (gets (\<lambda>s. length (page_groups (malloc_info s)))) (\<lambda>page_group_idx.
     thenM (CHECK (page_group_idx < unat (kMaxAvailableRam div kMinMmapSize K)))
    (thenM (modify (\<lambda>s. s\<lparr>malloc_info := (malloc_info s)
              \<lparr>page_groups := page_groups (malloc_info s) @ [pg]\<rparr>\<rparr>))
    (returnM res))))))))))))"

text \<open>
  \<open>AllocateChunks\<close> moves \<open>n_chunks\<close> chunks from the global free list of the class to the
  list \<open>m\<close>; the loop index is not used in the body, so the recursion counts down.
\<close>

fun AllocateChunks_loop :: "config \<Rightarrow> int option \<Rightarrow> uint8_t \<Rightarrow> nat \<Rightarrow> uintptr_t \<Rightarrow> uintptr_t M" where
  "AllocateChunks_loop K cur c 0 m = returnM m"
| "AllocateChunks_loop K cur c (Suc i) m =
     bindM (gets (get_free_list Global (unat c))) (\<lambda>fl.
     thenM (if fl = 0
            then bindM (GetNewChunks K cur c) (\<lambda>r. modify (set_free_list Global (unat c) r))
            else returnM ())
    (bindM (gets (get_free_list Global (unat c))) (\<lambda>t.
     bindM (deref t) (\<lambda>h.
     thenM (modify (set_free_list Global (unat c) (next h)))
    (thenM (update_chunk t (\<lambda>h. h\<lparr>next := m\<rparr>))
    (bindM (deref t) (\<lambda>h'.
     thenM (CHECK (chunk_state h' = CHUNK_AVAILABLE))
    (AllocateChunks_loop K cur c i t))))))))"

definition AllocateChunks :: "config \<Rightarrow> int option \<Rightarrow> uint8_t \<Rightarrow> size_t \<Rightarrow> uintptr_t M" where
  "AllocateChunks K cur c n_chunks = AllocateChunks_loop K cur c (unat n_chunks) 0"

definition MallocInfo_Pop :: "config \<Rightarrow> unit M" where
  "MallocInfo_Pop K =
     bindM (gets (get_quarantine Global)) (\<lambda>q.
     thenM (CHECK (fifo_size q > 0))
    (bindM (AsanChunkFifoList_Pop K Global) (\<lambda>m.
     thenM (CHECK (m \<noteq> 0))
    (bindM (deref m) (\<lambda>h.
     thenM (CHECK (chunk_state h = CHUNK_QUARANTINE))
    (thenM (update_chunk m (\<lambda>h. h\<lparr>chunk_state := CHUNK_AVAILABLE\<rparr>))
    (thenM (CHECK (alloc_tid h \<ge> 0))
    (thenM (CHECK (free_tid h \<ge> 0))
    (let c = unat (size_class h) in
     bindM (gets (get_free_list Global c)) (\<lambda>fl.
     thenM (update_chunk m (\<lambda>h. h\<lparr>next := fl\<rparr>))
    (thenM (modify (set_free_list Global c m))
    (if flag_stats K \<noteq> 0
     then bindM (liftE (Size K h)) (\<lambda>sz.
          bindM (liftE (Log2 sz)) (\<lambda>l.
          modify (\<lambda>s. s\<lparr>asan_stats := (asan_stats s)
            \<lparr>real_frees := real_frees (asan_stats s) + 1,
             really_freed := really_freed (asan_stats s) + used_size h,
             really_freed_by_size := (really_freed_by_size (asan_stats s))
               (unat l := really_freed_by_size (asan_stats s) (unat l) + 1)\<rparr>\<rparr>)))
     else returnM ()))))))))))))"


section \<open>Facts about powers of two and size classes\<close>

lemma nat_pow2_and: "0 < n \<Longrightarrow> (n AND (n - 1) = 0) = (\<exists>k. n = 2 ^ k)" for n :: nat
proof (induction n rule: less_induct)
  case (less n)
  show ?case
  proof (cases "even n")
    case True
    then obtain m where m: "n = 2 * m" by (auto elim: evenE)
    with less.prems have mpos: "0 < m" by simp
    have d: "(n - 1) div 2 = m - 1" using m mpos by (cases m) auto
    have "n AND (n - 1) = 2 * (m AND (m - 1))"
      using m mpos d by (subst and_rec) simp
    moreover have "(m AND (m - 1) = 0) = (\<exists>k. m = 2 ^ k)"
      using less.IH[of m] m mpos by simp
    moreover have "(\<exists>k. m = 2 ^ k) = (\<exists>k. n = 2 ^ k)"
    proof
      assume "\<exists>k. m = 2 ^ k"
      then obtain k where "m = 2 ^ k" ..
      then have "n = 2 ^ Suc k" using m by simp
      then show "\<exists>k. n = 2 ^ k" ..
    next
      assume "\<exists>k. n = 2 ^ k"
      then obtain k where k: "n = 2 ^ k" ..
      with True less.prems have "k \<noteq> 0" by (cases k) auto
      then obtain j where "k = Suc j" by (cases k) auto
      with k m have "m = 2 ^ j" by simp
      then show "\<exists>k. m = 2 ^ k" ..
    qed
    ultimately show ?thesis by simp
  next
    case False
    then obtain m where m: "n = 2 * m + 1" by (auto elim: oddE)
    have "n AND (n - 1) = 2 * m"
      using m by (subst and_rec) simp
    moreover have "(\<exists>k. n = 2 ^ k) = (m = 0)"
    proof
      assume "\<exists>k. n = 2 ^ k"
      then obtain k where k: "n = 2 ^ k" ..
      with False have "k = 0" by (cases k) auto
      with k m show "m = 0" by simp
    next
      assume "m = 0"
      with m have "n = 2 ^ 0" by simp
      then show "\<exists>k. n = 2 ^ k" ..
    qed
    ultimately show ?thesis by simp
  qed
qed

lemma ctz_nat_pow2: "ctz_nat (2 ^ k) = k"
  by (induction k) (simp_all add: ctz_nat.simps[of "Suc 0"] ctz_nat.simps[of "2 * _"])

lemma unat_pow2_64: "k < 64 \<Longrightarrow> unat ((2::64 word) ^ k) = 2 ^ k"
proof -
  assume k: "k < 64"
  have "(2::nat) ^ k < 2 ^ 64" using k by (intro power_strict_increasing) simp_all
  then have "(2::nat) ^ k mod 2 ^ LENGTH(64) = 2 ^ k" by (simp only: mod_less len_bit0 len_num1 mult_2 one_add_one flip: numeral_Bit0 numeral_One) 
  moreover have "(2::64 word) ^ k = of_nat (2 ^ k)" by simp
  ultimately show ?thesis by (simp only: unat_of_nat)
qed

lemma pow2_lt_64: "(2::nat) ^ k < 2 ^ 64 \<Longrightarrow> k < 64"
  by (rule power_less_imp_less_exp[of 2]) simp_all

lemma unat_lt_2p64: "unat (x::64 word) < 2 ^ 64"
  using unsigned_less[of x, where 'a=nat] by simp
lemma floorlog_nonpow2:
  assumes npos: "0 < n" and np: "\<And>k. n \<noteq> 2 ^ k"
  shows "2 ^ (floorlog 2 n - 1) < n" and "n < 2 ^ floorlog 2 n"
    and "ceillog2 n = floorlog 2 n" and "0 < floorlog 2 n"
proof -
  define u where "u = floorlog 2 n"
  have b: "2 ^ (u - 1) \<le> n \<and> n < 2 ^ u"
    unfolding u_def by (rule floorlog_bounds) (use npos in simp_all)
  have upos: "0 < u"
  proof (rule ccontr)
    assume "\<not> 0 < u"
    then have "u = 0" by simp
    with b have "n < 1" by simp
    with npos show False by simp
  qed
  have lo: "2 ^ (u - 1) < n" using b np[of "u - 1"] by (simp add: le_less)
  have "2 * 2 ^ (u - 1) = (2::nat) ^ u" using upos by (cases u) simp_all
  with lo have "2 ^ u < 2 * n" by linarith
  with b have cl: "ceillog2 n = u" by (intro ceillog2_eqI) simp_all
  show "2 ^ (floorlog 2 n - 1) < n" using lo by (simp only: u_def)
  show "n < 2 ^ floorlog 2 n" using b by (simp only: u_def)
  show "ceillog2 n = floorlog 2 n" using cl by (simp only: u_def)
  show "0 < floorlog 2 n" using upos by (simp only: u_def)
qed


lemma IsPowerOfTwo_iff:
  "x \<noteq> 0 \<Longrightarrow> IsPowerOfTwo x \<longleftrightarrow> (\<exists>k<64. x = 2 ^ k)"
proof -
  assume nz: "x \<noteq> 0"
  then have pos: "0 < unat x" by (simp add: unat_gt_0)
  have "IsPowerOfTwo x \<longleftrightarrow> unat (x AND (x - 1)) = 0"
    by (simp add: IsPowerOfTwo_def unat_eq_0)
  also have "\<dots> \<longleftrightarrow> unat x AND (unat x - 1) = 0"
    using nz by (simp add: unsigned_and_eq unat_minus_one)
  also have "\<dots> \<longleftrightarrow> (\<exists>k. unat x = 2 ^ k)"
    using pos by (rule nat_pow2_and)
  also have "\<dots> \<longleftrightarrow> (\<exists>k<64. x = 2 ^ k)"
  proof
    assume "\<exists>k. unat x = 2 ^ k"
    then obtain k where k: "unat x = 2 ^ k" ..
    have "(2::nat) ^ k < 2 ^ 64" using unat_lt_2p64[of x] by (simp only: k)
    then have k64: "k < 64" by (rule pow2_lt_64)
    then have "unat x = unat ((2::64 word) ^ k)" using k by (simp only: unat_pow2_64)
    then have "x = 2 ^ k" by (simp only: word_unat_eq_iff)
    with k64 show "\<exists>k<64. x = 2 ^ k" by blast
  next
    assume "\<exists>k<64. x = 2 ^ k"
    then obtain k where "k < 64" "x = 2 ^ k" by blast
    then have "unat x = 2 ^ k" by (simp only: unat_pow2_64)
    then show "\<exists>k. unat x = 2 ^ k" ..
  qed
  finally show ?thesis .
qed

lemma pow2_word_neq_0: "k < 64 \<Longrightarrow> (2::64 word) ^ k \<noteq> 0"
proof
  assume k: "k < 64" and "(2::64 word) ^ k = 0"
  then have "unat ((2::64 word) ^ k) = 0" by simp
  with k show False by (simp only: unat_pow2_64) simp
qed

lemma IsPowerOfTwo_pow2: "k < 64 \<Longrightarrow> IsPowerOfTwo (2 ^ k)"
proof -
  assume k: "k < 64"
  from k have "(2::64 word) ^ k \<noteq> 0" by (rule pow2_word_neq_0)
  from IsPowerOfTwo_iff[OF this] k show ?thesis by blast
qed

lemma Log2_pow2: "k < 64 \<Longrightarrow> Log2 (2 ^ k) = Inr (of_nat k)"
  by (simp add: Log2_def IsPowerOfTwo_pow2 builtin_ctzl_def unat_pow2_64 ctz_nat_pow2)


lemma RoundUpToPowerOfTwo_ceillog2:
  assumes nz: "sz \<noteq> 0" and le: "unat sz < 2 ^ 63"
  shows "RoundUpToPowerOfTwo sz = Inr (2 ^ ceillog2 (unat sz))"
proof (cases "IsPowerOfTwo sz")
  case True
  with IsPowerOfTwo_iff[OF nz] obtain k where k: "k < 64" "sz = 2 ^ k" by blast
  then have "ceillog2 (unat sz) = k" by (simp only: unat_pow2_64 ceillog2_2_power)
  then show ?thesis using True nz k by (simp add: RoundUpToPowerOfTwo_def)
next
  case False
  define n where "n = unat sz"
  define u where "u = floorlog 2 n"
  have npos: "0 < n" using nz by (simp add: n_def unat_gt_0)
  have np: "n \<noteq> 2 ^ k" for k
  proof
    assume e: "n = 2 ^ k"
    have e': "unat sz = 2 ^ k" using e by (simp only: n_def)
    have "(2::nat) ^ k < 2 ^ 64" using unat_lt_2p64[of sz] by (simp only: e')
    then have k64: "k < 64" by (rule pow2_lt_64)
    then have "unat sz = unat ((2::64 word) ^ k)" using e' by (simp only: unat_pow2_64)
    then have "sz = 2 ^ k" by (simp only: word_unat_eq_iff)
    with False k64 show False by (simp add: IsPowerOfTwo_pow2)
  qed
  note fl = floorlog_nonpow2[OF npos np, folded u_def]
  have "n < 2 ^ 63" using le by (simp only: n_def)
  then have "u \<le> 63" unfolding u_def by (intro floorlog_leI) simp_all
  then have u63: "u < 64" "u - 1 < 64" by simp_all
  have up: "64 - builtin_clzl sz = u"
    using u63 by (simp add: builtin_clzl_def u_def n_def)
  have c1: "sz < 2 ^ u"
    using fl(2) u63 by (simp only: word_less_nat_alt unat_pow2_64 n_def)
  have c2: "2 ^ (u - 1) < sz"
    using fl(1) u63 by (simp only: word_less_nat_alt unat_pow2_64 n_def)
  show ?thesis
    using False nz u63 c1 c2 fl(3)
    by (simp add: RoundUpToPowerOfTwo_def up Let_def push_bit_eq_mult flip: n_def)
qed

lemma ceil_div_nat: "0 < b \<Longrightarrow> nat \<lceil>real n / real b\<rceil> = (n + b - 1) div b"
proof -
  assume b: "0 < b"
  define q where "q = (n + b - 1) div b"
  have 1: "n \<le> q * b"
  proof -
    have "(n + b - 1) mod b < b" using b by simp
    moreover have "q * b + (n + b - 1) mod b = n + b - 1" unfolding q_def by simp
    ultimately show ?thesis using b by linarith
  qed
  have 2: "n = 0 \<or> (q - 1) * b < n"
  proof (cases "n = 0")
    case False
    have "q * b \<le> n + b - 1" unfolding q_def by simp
    moreover have "0 < q" unfolding q_def using False b by (simp add: div_greater_zero_iff)
    ultimately have "(q - 1) * b + b \<le> n + b - 1" by (cases q) (simp_all add: algebra_simps)
    then show ?thesis using False b by linarith
  qed simp
  have "\<lceil>real n / real b\<rceil> = int q"
  proof (cases "n = 0")
    case True
    then show ?thesis using b by (simp add: q_def)
  next
    case False
    with 2 have lt: "(q - 1) * b < n" by simp
    have qpos: "0 < q" using 1 False by (cases q) simp_all
    show ?thesis
    proof (rule ceiling_unique)
      have "real ((q - 1) * b) < real n" using lt by (simp only: of_nat_less_iff)
      then have "real (q - 1) < real n / real b" using b by (simp add: pos_less_divide_eq)
      then show "of_int (int q) - 1 < real n / real b" using qpos by simp
      have "real n \<le> real (q * b)" using 1 by (simp only: of_nat_le_iff)
      then show "real n / real b \<le> of_int (int q)" using b by (simp add: pos_divide_le_eq)
    qed
  qed
  then show ?thesis by (simp add: q_def)
qed

lemma ucast_8_64_of_nat: "l < 256 \<Longrightarrow> unat (ucast (of_nat l :: 64 word) :: 8 word) = l"
  by (simp add: unsigned_ucast_eq unsigned_of_nat take_bit_nat_eq_self)

lemma unat_ucast_8_64: "unat (ucast (c::8 word) :: 64 word) = unat c"
proof -
  have "unat c < 2 ^ 8" using unsigned_less[of c, where 'a=nat] by simp
  then have "unat c < 2 ^ 64" by simp
  then show ?thesis by (simp add: unsigned_ucast_eq take_bit_nat_eq_self)
qed

lemma SizeClassToSize_small:
  assumes "unat c < unat (kNumberOfSizeClasses K)" "unat c \<le> 26"
  shows "SizeClassToSize K c = Inr (2 ^ unat c)"
  using assms
  by (simp add: SizeClassToSize_def word_less_nat_alt word_le_nat_alt unat_ucast_8_64
      kMallocSizeClassStepLog_def push_bit_eq_mult)

lemma SizeToSizeClass_small:
  assumes N: "154 < unat (kNumberOfSizeClasses K)" and nz: "sz \<noteq> 0"
    and le: "sz \<le> kMallocSizeClassStep"
  shows "\<exists>c s. SizeToSizeClass K sz = Inr c \<and> unat c = ceillog2 (unat sz)
            \<and> SizeClassToSize K c = Inr s \<and> sz \<le> s"
proof -
  define n where "n = unat sz"
  define l where "l = ceillog2 n"
  have n26: "n \<le> 2 ^ 26"
    using le by (simp add: n_def word_le_nat_alt kMallocSizeClassStep_def kMallocSizeClassStepLog_def)
  have npos: "0 < n" using nz by (simp add: n_def unat_gt_0)
  have l26: "l \<le> 26" unfolding l_def using n26 npos by (simp add: ceillog2_le_iff)
  have nl: "n \<le> 2 ^ l" unfolding l_def by (rule le_two_power_ceillog2)
  have r: "RoundUpToPowerOfTwo sz = Inr (2 ^ l)"
    unfolding l_def n_def using nz n26 by (intro RoundUpToPowerOfTwo_ceillog2) (simp_all add: n_def)
  have lg: "Log2 (2 ^ l) = Inr (of_nat l)" using l26 by (intro Log2_pow2) simp
  define c :: "8 word" where "c = ucast (of_nat l :: 64 word)"
  have uc: "unat c = l" unfolding c_def using l26 by (intro ucast_8_64_of_nat) simp
  have s: "SizeClassToSize K c = Inr (2 ^ l)"
    using SizeClassToSize_small[of c K] N l26 by (simp add: uc)
  have "unat sz \<le> unat ((2::64 word) ^ l)" using nl l26 by (simp add: unat_pow2_64 n_def)
  then have szle: "sz \<le> 2 ^ l" by (simp only: word_le_nat_alt)
  have cN: "ucast c < kNumberOfSizeClasses K"
    using N l26 by (simp add: word_less_nat_alt unat_ucast_8_64 uc)
  have "SizeToSizeClass K sz = Inr c"
    using le cN szle by (simp add: SizeToSizeClass_def bindE_def r lg s flip: c_def)
  with uc s szle show ?thesis by (simp add: l_def n_def)
qed

lemma SizeToSizeClass_large:
  assumes N: "154 < unat (kNumberOfSizeClasses K)"
    and gt: "kMallocSizeClassStep < sz" and le: "sz \<le> kMaxAllowedMallocSize"
  shows "\<exists>c s. SizeToSizeClass K sz = Inr c \<and> unat c = (unat sz + 2 ^ 26 - 1) div 2 ^ 26 + 26
            \<and> SizeClassToSize K c = Inr s \<and> sz \<le> s"
proof -
  define n where "n = unat sz"
  define q where "q = (n + 2 ^ 26 - 1) div 2 ^ 26"
  have n1: "2 ^ 26 < n"
    using gt by (simp add: n_def word_less_nat_alt kMallocSizeClassStep_def kMallocSizeClassStepLog_def)
  have n2: "n \<le> 2 ^ 33"
    using le by (simp add: n_def word_le_nat_alt kMaxAllowedMallocSize_def)
  have q1: "q \<le> 128" unfolding q_def using n2 by simp
  have q0: "2 \<le> q" unfolding q_def using n1 by simp
  have nq: "n \<le> q * 2 ^ 26"
  proof -
    have "(n + 2 ^ 26 - 1) mod 2 ^ 26 < (2::nat) ^ 26" by simp
    moreover have "q * 2 ^ 26 + (n + 2 ^ 26 - 1) mod 2 ^ 26 = n + 2 ^ 26 - 1"
      unfolding q_def by simp
    ultimately show ?thesis by linarith
  qed
  have w1: "unat (sz + kMallocSizeClassStep - 1) = n + 2 ^ 26 - 1"
    using n1 n2 unfolding n_def kMallocSizeClassStep_def kMallocSizeClassStepLog_def
    by (simp add: unat_word_ariths unat_sub_if')
  define r :: "64 word" where
    "r = (sz + kMallocSizeClassStep - 1) div kMallocSizeClassStep + kMallocSizeClassStepLog"
  have ur: "unat r = q + 26"
    using q1 unfolding r_def
    by (simp add: unat_word_ariths(1) unat_div w1 q_def)
       (simp add: kMallocSizeClassStep_def kMallocSizeClassStepLog_def)
  define c :: "8 word" where "c = ucast r"
  have uc: "unat c = q + 26"
    using q1 by (simp add: c_def unsigned_ucast_eq ur take_bit_nat_eq_self)
  have cN: "ucast c < kNumberOfSizeClasses K"
    using N q1 by (simp add: word_less_nat_alt unat_ucast_8_64 uc)
  have c26: "\<not> ucast c \<le> kMallocSizeClassStepLog"
    using q0 by (simp add: word_le_nat_alt unat_ucast_8_64 uc kMallocSizeClassStepLog_def)
  define s :: "64 word" where "s = (ucast c - kMallocSizeClassStepLog) * kMallocSizeClassStep"
  define d :: "64 word" where "d = ucast c - kMallocSizeClassStepLog"
  have ud: "unat d = q"
    by (simp add: d_def unat_sub_if' unat_ucast_8_64 uc kMallocSizeClassStepLog_def)
  have ustep: "unat kMallocSizeClassStep = 2 ^ 26"
    by (simp add: kMallocSizeClassStep_def kMallocSizeClassStepLog_def)
  have "q * 2 ^ 26 < (2::nat) ^ 64" using q1 by simp
  then have "unat (d * kMallocSizeClassStep) = q * 2 ^ 26"
    by (simp only: unat_word_ariths(2) ud ustep len_bit0 len_num1 mult_2 one_add_one mod_less
          flip: numeral_Bit0 numeral_One)
  then have us: "unat s = q * 2 ^ 26" by (simp only: s_def d_def)
  have szs: "sz \<le> s" using nq by (simp add: word_le_nat_alt us flip: n_def)
  have sc: "SizeClassToSize K c = Inr s"
    using cN c26 by (simp add: SizeClassToSize_def s_def)
  have "SizeToSizeClass K sz = Inr c"
    using gt cN szs by (simp add: SizeToSizeClass_def bindE_def sc flip: not_less r_def c_def)
  with uc sc szs show ?thesis by (simp add: q_def n_def)
qed

lemma class_of_spec_code: "0 < n \<Longrightarrow>
   class_of_spec n = (if n \<le> 2 ^ 26 then ceillog2 n else (n + 2 ^ 26 - 1) div 2 ^ 26 + 26)"
  using ceil_div_nat[of "2 ^ 26" n] by (simp add: class_of_spec_def ceillog2_def)

section \<open>Successful runs, step by step\<close>

text \<open>
  A run that returns is decomposed by rewriting: each rule says when one step returns and in
  which state.
\<close>

lemma bindM_Inr: "bindM m f s = Inr r \<longleftrightarrow> (\<exists>a s1. m s = Inr (a, s1) \<and> f a s1 = Inr r)"
  by (auto simp: bindM_def split: sum.splits)
lemma thenM_Inr: "thenM m n s = Inr r \<longleftrightarrow> (\<exists>s1. m s = Inr ((), s1) \<and> n s1 = Inr r)"
  by (auto simp: thenM_def bindM_def split: sum.splits)
lemma returnM_Inr: "returnM x s = Inr (a, s1) \<longleftrightarrow> a = x \<and> s1 = s"
  by (auto simp: returnM_def)
lemma failM_Inr: "failM e s = Inr r \<longleftrightarrow> False"
  by (simp add: failM_def)
lemma gets_Inr: "gets g s = Inr (a, s1) \<longleftrightarrow> a = g s \<and> s1 = s"
  by (auto simp: gets_def)
lemma modify_Inr: "modify g s = Inr (a, s1) \<longleftrightarrow> s1 = g s"
  by (auto simp: modify_def)
lemma CHECK_Inr: "CHECK b s = Inr (a, s1) \<longleftrightarrow> b \<and> s1 = s"
  by (auto simp: CHECK_def returnM_def failM_def)
lemma liftE_Inr: "liftE r s = Inr (a, s1) \<longleftrightarrow> r = Inr a \<and> s1 = s"
  by (auto simp: liftE_def returnM_def failM_def split: sum.splits)
lemma deref_Inr: "deref p s = Inr (h, s1) \<longleftrightarrow> p \<noteq> 0 \<and> h = heap s p \<and> s1 = s"
  by (auto simp: deref_def failM_def gets_def)
lemma update_chunk_Inr:
  "update_chunk p g s = Inr (a, s1) \<longleftrightarrow> p \<noteq> 0 \<and> s1 = s\<lparr>heap := (heap s)(p := g (heap s p))\<rparr>"
  by (auto simp: update_chunk_def failM_def modify_def)
lemma whenM_Inr: "whenM b m s = Inr (a, s1) \<longleftrightarrow> (if b then m s = Inr (a, s1) else s1 = s)"
  by (auto simp: whenM_def returnM_def)
lemma Printf_Inr: "Printf e s = Inr (a, s1) \<longleftrightarrow> s1 = s\<lparr>out := out s @ [e]\<rparr>"
  by (auto simp: Printf_def modify_def)
lemma if_Inr: "(if b then m else n) s = Inr r \<longleftrightarrow> (if b then m s = Inr r else n s = Inr r)"
  by simp

lemmas inr_simps = bindM_Inr thenM_Inr returnM_Inr failM_Inr gets_Inr modify_Inr CHECK_Inr
  liftE_Inr deref_Inr update_chunk_Inr whenM_Inr Printf_Inr if_Inr

lemma SizeClassToSize_nonzero: "SizeClassToSize K c = Inr sz \<Longrightarrow> sz \<noteq> 0"
proof -
  assume a: "SizeClassToSize K c = Inr sz"
  have c256: "unat c < 256" using unsigned_less[of c, where 'a=nat] by simp
  show ?thesis
  proof (cases "(ucast c :: 64 word) \<le> kMallocSizeClassStepLog")
    case True
    then have "unat c \<le> 26" by (simp add: word_le_nat_alt unat_ucast_8_64 kMallocSizeClassStepLog_def)
    then have "unat c < 64" by simp
    then have "(2::64 word) ^ unat c \<noteq> 0" by (rule pow2_word_neq_0)
    with a True show ?thesis by (auto simp: SizeClassToSize_def push_bit_eq_mult split: if_splits)
  next
    case False
    then have lo: "26 < unat c" by (simp add: word_le_nat_alt unat_ucast_8_64 kMallocSizeClassStepLog_def)
    define d :: "64 word" where "d = ucast c - kMallocSizeClassStepLog"
    have ud: "unat d = unat c - 26"
      using lo by (simp add: d_def unat_sub_if' unat_ucast_8_64 kMallocSizeClassStepLog_def)
    have ustep: "unat kMallocSizeClassStep = 2 ^ 26"
      by (simp add: kMallocSizeClassStep_def kMallocSizeClassStepLog_def)
    have "(unat c - 26) * 2 ^ 26 < (2::nat) ^ 64" using c256 by simp
    then have "unat (d * kMallocSizeClassStep) = (unat c - 26) * 2 ^ 26"
      by (simp only: unat_word_ariths(2) ud ustep len_bit0 len_num1 mult_2 one_add_one mod_less
            flip: numeral_Bit0 numeral_One)
    with lo have "unat (d * kMallocSizeClassStep) \<noteq> 0" by simp
    then have "d * kMallocSizeClassStep \<noteq> 0" by (simp add: unat_eq_0)
    with a False show ?thesis by (auto simp: SizeClassToSize_def d_def split: if_splits)
  qed
qed

lemma Fifo_Pop_Inr:
  assumes "AsanChunkFifoList_Pop K r s = Inr (m, s')"
  shows "\<exists>sz. m = fifo_first (get_quarantine r s) \<and> m \<noteq> 0
     \<and> SizeClassToSize K (size_class (heap s m)) = Inr sz \<and> sz \<le> fifo_size (get_quarantine r s)
     \<and> s' = set_quarantine r ((get_quarantine r s)
          \<lparr>fifo_first := next (heap s m),
           fifo_last := (if next (heap s m) = 0 then 0 else fifo_last (get_quarantine r s)),
           fifo_size := fifo_size (get_quarantine r s) - sz\<rparr>) s"
  using assms
  apply (simp add: AsanChunkFifoList_Pop_def inr_simps Let_def Size_def)
  apply (cases r)
  apply (auto simp: get_quarantine_def set_quarantine_def inr_simps split: if_splits)
  done


lemma MallocInfo_Pop_Inr:
  assumes "MallocInfo_Pop K s = Inr (u, s')"
  defines "q \<equiv> quarantine (malloc_info s)"
  defines "m \<equiv> fifo_first q"
  defines "h \<equiv> heap s m"
  shows "\<exists>sz. m \<noteq> 0 \<and> 0 < fifo_size q \<and> chunk_state h = CHUNK_QUARANTINE
     \<and> SizeClassToSize K (size_class h) = Inr sz \<and> sz \<le> fifo_size q
     \<and> heap s' = (heap s)(m := h\<lparr>chunk_state := CHUNK_AVAILABLE,
                                    next := free_lists (malloc_info s) (unat (size_class h))\<rparr>)
     \<and> free_lists (malloc_info s') = (free_lists (malloc_info s))(unat (size_class h) := m)
     \<and> quarantine (malloc_info s') = q\<lparr>fifo_first := next h,
           fifo_last := (if next h = 0 then 0 else fifo_last q),
           fifo_size := fifo_size q - sz\<rparr>
     \<and> page_groups (malloc_info s') = page_groups (malloc_info s)
     \<and> threads s' = threads s \<and> out s' = out s \<and> bytes s' = bytes s
     \<and> os_mmap s' = os_mmap s"
  using assms(1)
  apply (simp add: MallocInfo_Pop_def inr_simps Let_def Size_def)
  apply (clarsimp dest!: Fifo_Pop_Inr)
  apply (auto simp: get_quarantine_def set_quarantine_def get_free_list_def set_free_list_def
      inr_simps q_def m_def h_def split: if_splits)
  done

lemma MallocInfo_Pop_decreases:
  assumes "MallocInfo_Pop K s = Inr (u, s')"
  shows "unat (fifo_size (quarantine (malloc_info s'))) < unat (fifo_size (quarantine (malloc_info s)))"
proof -
  from MallocInfo_Pop_Inr[OF assms] obtain sz where
    sz: "SizeClassToSize K (size_class (heap s (fifo_first (quarantine (malloc_info s))))) = Inr sz"
      "sz \<le> fifo_size (quarantine (malloc_info s))"
    and q: "fifo_size (quarantine (malloc_info s')) = fifo_size (quarantine (malloc_info s)) - sz"
    by auto
  from sz(1) have "sz \<noteq> 0" by (rule SizeClassToSize_nonzero)
  then have "0 < unat sz" by (simp add: unat_gt_0)
  with sz(2) show ?thesis by (simp add: q unat_sub word_le_nat_alt)
qed

lemmas monad_defs = bindM_def thenM_def returnM_def failM_def gets_def modify_def CHECK_def
  liftE_def whenM_def Printf_def deref_def update_chunk_def

lemma PtrToChunk_Inr:
  "PtrToChunk K ptr s = Inr (m, s') \<longleftrightarrow>
     ptr - REDZONE K \<noteq> 0 \<and> s' = s
     \<and> m = (if chunk_state (heap s (ptr - REDZONE K)) = CHUNK_MEMALIGN
            then next (heap s (ptr - REDZONE K)) else ptr - REDZONE K)"
  by (auto simp: PtrToChunk_def inr_simps)


section \<open>Draining the quarantine\<close>

text \<open>
  The loop \<open>while (quarantine_.size() > __asan_flag_quarantine_size) Pop();\<close> of
  \<open>SwallowThreadLocalMallocStorage\<close>. It terminates because every \<open>Pop\<close> that returns makes
  the quarantine smaller.
\<close>

function drain_quarantine :: "config \<Rightarrow> unit M" where
  "drain_quarantine K s =
     (if fifo_size (quarantine (malloc_info s)) > flag_quarantine_size K
      then (case MallocInfo_Pop K s of Inl x \<Rightarrow> Inl x | Inr (u, s') \<Rightarrow> drain_quarantine K s')
      else Inr ((), s))"
  by pat_completeness auto
termination
  by (relation "measure (\<lambda>(K, s). unat (fifo_size (quarantine (malloc_info s))))")
     (auto dest: MallocInfo_Pop_decreases)

declare drain_quarantine.simps [simp del]

text \<open>
  \<open>SwallowThreadLocalMallocStorage(x, eat_free_lists)\<close> up to its \<open>if (eat_free_lists)\<close>:
  the thread's quarantine is spliced onto the global one, which is then drained down to the
  budget. \<open>x\<close> is the id of the thread whose storage is swallowed.
\<close>

definition SwallowQuarantine :: "config \<Rightarrow> int \<Rightarrow> unit M" where
  "SwallowQuarantine K x =
     thenM (CHECK (flag_quarantine_size K > 0))
    (bindM (gets (get_quarantine (Local x))) (\<lambda>q.
     if fifo_size q > 0
     then thenM (AsanChunkFifoList_PushList Global (Local x)) (drain_quarantine K)
     else returnM ()))"

text \<open>
  The part under \<open>if (eat_free_lists)\<close>. The inner \<open>while (m)\<close> follows \<open>next\<close> links and
  need not end on a cyclic list, so it is a partial function: \<open>None\<close> is a run that never
  returns.
\<close>

partial_function (option) eat_free_list :: "nat \<Rightarrow> uintptr_t \<Rightarrow> state \<Rightarrow> state option" where
  "eat_free_list c m s =
     (if m = 0 then Some s
      else let t = next (heap s m);
               s1 = s\<lparr>heap := (heap s)(m := (heap s m)\<lparr>next := get_free_list Global c s\<rparr>)\<rparr>;
               s2 = set_free_list Global c m s1
           in eat_free_list c t s2)"

fun eat_free_lists :: "int \<Rightarrow> nat list \<Rightarrow> state \<Rightarrow> state option" where
  "eat_free_lists x [] s = Some s"
| "eat_free_lists x (c # cs) s =
     (case eat_free_list c (get_free_list (Local x) c s) s of
        None \<Rightarrow> None
      | Some s' \<Rightarrow> eat_free_lists x cs (set_free_list (Local x) c 0 s'))"

definition SwallowThreadLocalMallocStorage ::
    "config \<Rightarrow> int \<Rightarrow> bool \<Rightarrow> state \<Rightarrow> ((error \<times> state) + (unit \<times> state)) option" where
  "SwallowThreadLocalMallocStorage K x eat s =
     (case SwallowQuarantine K x s of
        Inl e \<Rightarrow> Some (Inl e)
      | Inr (u, s') \<Rightarrow>
          if eat
          then map_option (\<lambda>s''. Inr ((), s''))
                 (eat_free_lists x [0..<unat (kNumberOfSizeClasses K)] s')
          else Some (Inr ((), s')))"

definition CommitBack ::
    "config \<Rightarrow> int \<Rightarrow> state \<Rightarrow> ((error \<times> state) + (unit \<times> state)) option" where
  "CommitBack K x = SwallowThreadLocalMallocStorage K x True"

definition BypassThreadLocalQuarantine :: "config \<Rightarrow> uintptr_t \<Rightarrow> unit M" where
  "BypassThreadLocalQuarantine K chunk = AsanChunkFifoList_Push K Global chunk"

definition AllocationSize :: "config \<Rightarrow> uintptr_t \<Rightarrow> size_t M" where
  "AllocationSize K ptr =
     bindM (FindPageGroup ptr) (\<lambda>g.
     if g = None then returnM 0
     else bindM (PtrToChunk K ptr) (\<lambda>m.
          bindM (deref m) (\<lambda>h.
          if chunk_state h = CHUNK_ALLOCATED then returnM (used_size h) else returnM 0)))"

section \<open>Allocate, Deallocate, Reallocate\<close>

text \<open>
  The statistics block of \<open>Allocate\<close>. \<open>PrintStats\<close> and \<open>PrintStatus\<close> only print; the model
  keeps one event for each (the per-class totals that \<open>PrintStatus\<close> sums are not kept).
\<close>

definition Allocate_stats :: "config \<Rightarrow> size_t \<Rightarrow> size_t \<Rightarrow> unit M" where
  "Allocate_stats K sz size_to_allocate =
     (if flag_stats K \<noteq> 0
      then bindM (liftE (Log2 size_to_allocate)) (\<lambda>l.
           thenM (modify (\<lambda>s. s\<lparr>asan_stats := (asan_stats s)
             \<lparr>allocated_since_last_stats := allocated_since_last_stats (asan_stats s) + sz,
              mallocs := mallocs (asan_stats s) + 1,
              malloced := malloced (asan_stats s) + sz,
              malloced_redzones := malloced_redzones (asan_stats s) + (size_to_allocate - sz),
              malloced_by_size := (malloced_by_size (asan_stats s))
                (unat l := malloced_by_size (asan_stats s) (unat l) + 1)\<rparr>\<rparr>))
          (if flag_stats K \<ge> 32 then failM Undefined
           else bindM (gets (\<lambda>s. allocated_since_last_stats (asan_stats s))) (\<lambda>a.
                if a > ucast (push_bit (flag_stats K) (1 :: 32 word))
                then thenM (Printf Msg_PrintStats)
                    (bindM (gets (\<lambda>s. fifo_size (quarantine (malloc_info s)))) (\<lambda>q.
                     thenM (Printf (Msg_PrintStatus q))
                    (modify (\<lambda>s. s\<lparr>asan_stats := (asan_stats s)
                       \<lparr>allocated_since_last_stats := 0\<rparr>\<rparr>))))
                else returnM ())))
      else returnM ())"

text \<open>Taking one chunk: from the global storage, or from the thread-local free list.\<close>

definition Allocate_chunk :: "config \<Rightarrow> int option \<Rightarrow> uint8_t \<Rightarrow> size_t \<Rightarrow> uintptr_t M" where
  "Allocate_chunk K cur c size_to_allocate =
     (case (if size_to_allocate \<ge> kMaxSizeForThreadLocalFreeList then None else cur) of
        None \<Rightarrow>
          bindM (AllocateChunks K cur c 1) (\<lambda>m.
          thenM (update_stats K (\<lambda>st. st\<lparr>malloc_large := malloc_large st + 1\<rparr>))
         (returnM m))
      | Some t \<Rightarrow>
          bindM (gets (get_free_list (Local t) (unat c))) (\<lambda>fl.
          thenM (if fl = 0
                 then (let n_new_chunks = kMaxSizeForThreadLocalFreeList div size_to_allocate in
                       bindM (AllocateChunks K cur c n_new_chunks) (\<lambda>r.
                       thenM (modify (set_free_list (Local t) (unat c) r))
                      (update_stats K (\<lambda>st. st\<lparr>malloc_small_slow := malloc_small_slow st + 1\<rparr>))))
                 else returnM ())
         (bindM (gets (get_free_list (Local t) (unat c))) (\<lambda>m.
          bindM (deref m) (\<lambda>h.
          thenM (modify (set_free_list (Local t) (unat c) (next h)))
         (returnM m))))))"

text \<open>
  \<open>Allocate\<close> in four pieces, in the order of the source: taking the chunk out of the
  Available state, placing the user address (with the \<open>MemalignForwarder\<close> header when the
  alignment asks for one), filling the header and poisoning, and the function itself.
\<close>

definition Allocate_take :: "config \<Rightarrow> uintptr_t \<Rightarrow> size_t \<Rightarrow> unit M" where
  "Allocate_take K m size_to_allocate =
     thenM (CHECK (m \<noteq> 0))
    (bindM (deref m) (\<lambda>h.
     thenM (CHECK (chunk_state h = CHUNK_AVAILABLE))
    (thenM (update_chunk m (\<lambda>h. h\<lparr>chunk_state := CHUNK_ALLOCATED, next := 0\<rparr>))
    (bindM (liftE (Size K h)) (\<lambda>msize.
     thenM (CHECK (msize = size_to_allocate))
    (bindM (liftE (compressed_free_stack K m)) (\<lambda>fs.
     CHECK (m + REDZONE K = fs))))))))"

definition Allocate_place :: "config \<Rightarrow> size_t \<Rightarrow> uintptr_t \<Rightarrow> uintptr_t M" where
  "Allocate_place K alignment m =
     (if alignment > REDZONE K \<and> (m + REDZONE K) AND (alignment - 1) \<noteq> 0
      then bindM (liftE (RoundUpTo (m + REDZONE K) alignment)) (\<lambda>addr.
           thenM (CHECK (addr AND (alignment - 1) = 0))
          (thenM (update_chunk (addr - REDZONE K)
                    (\<lambda>p. p\<lparr>chunk_state := CHUNK_MEMALIGN, next := m\<rparr>))
          (returnM addr)))
      else returnM (m + REDZONE K))"

definition Allocate_fill ::
    "config \<Rightarrow> int option \<Rightarrow> size_t \<Rightarrow> size_t \<Rightarrow> AsanStackTrace \<Rightarrow> uintptr_t \<Rightarrow> uintptr_t
       \<Rightarrow> uintptr_t M" where
  "Allocate_fill K cur sz rounded_size stack m addr =
     bindM (PtrToChunk K addr) (\<lambda>pc.
     thenM (CHECK (m = pc))
    (thenM (update_chunk m (\<lambda>h. h\<lparr>used_size := sz, offset := ucast (addr - m)\<rparr>))
    (bindM (deref m) (\<lambda>h2.
     thenM (CHECK (beg m h2 = addr))
    (thenM (update_chunk m (\<lambda>h. h\<lparr>alloc_tid := (case cur of Some t \<Rightarrow> t | None \<Rightarrow> 0),
                                     free_tid := kInvalidTid K\<rparr>))
    (bindM (liftE (compressed_alloc_stack K m)) (\<lambda>slot.
     thenM (CompressStack stack slot)
    (thenM (PoisonShadow K addr rounded_size 0)
    (thenM (whenM (sz < rounded_size)
              (PoisonMemoryPartialRightRedzone K (addr + rounded_size - REDZONE K)
                 (sz AND (REDZONE K - 1))))
    (returnM addr))))))))))"

definition Allocate ::
    "config \<Rightarrow> int option \<Rightarrow> size_t \<Rightarrow> size_t \<Rightarrow> AsanStackTrace option \<Rightarrow> uintptr_t M" where
  "Allocate K cur alignment size0 stack =
     thenM (CHECK (stack \<noteq> None))
    (let sz = (if size0 = 0 then 1 else size0) in
     thenM (CHECK (IsPowerOfTwo alignment))
    (bindM (liftE (RoundUpTo sz (REDZONE K))) (\<lambda>rounded_size.
     let needed_size = (if alignment > REDZONE K then rounded_size + REDZONE K + alignment
                        else rounded_size + REDZONE K) in
     thenM (CHECK (IsAligned needed_size (REDZONE K)))
    (thenM (if needed_size > kMaxAllowedMallocSize
            then thenM (OutOfMemoryMessage cur ''Allocate'' sz)
                (thenM (Printf (Msg_PrintStack (the stack))) (failM Aborted))
            else returnM ())
    (bindM (liftE (SizeToSizeClass K needed_size)) (\<lambda>c.
     bindM (liftE (SizeClassToSize K c)) (\<lambda>size_to_allocate.
     thenM (CHECK (size_to_allocate \<ge> kMinAllocSize K))
    (thenM (CHECK (size_to_allocate \<ge> needed_size))
    (thenM (CHECK (IsAligned size_to_allocate (REDZONE K)))
    (thenM (whenM (flag_v K \<ge> 2) (Printf (Msg_Allocate alignment sz c size_to_allocate)))
    (thenM (Allocate_stats K sz size_to_allocate)
    (bindM (Allocate_chunk K cur c size_to_allocate) (\<lambda>m.
     thenM (Allocate_take K m size_to_allocate)
    (bindM (Allocate_place K alignment m) (\<lambda>addr.
     Allocate_fill K cur sz rounded_size (the stack) m addr)))))))))))))))"


definition show_stats_and_abort :: "'a M" where
  "show_stats_and_abort = bindM (Printf Msg_ShowStats) (\<lambda>_. failM Aborted)"

text \<open>
  \<open>Deallocate\<close> in three pieces, in the order of the source: the two diagnostics for a
  pointer that is not allocated, the function itself, and the hand-over to a quarantine.
\<close>

definition Deallocate_report ::
    "config \<Rightarrow> uintptr_t \<Rightarrow> ChunkBase \<Rightarrow> uintptr_t \<Rightarrow> AsanStackTrace \<Rightarrow> unit M" where
  "Deallocate_report K m h ptr stack =
     (if chunk_state h = CHUNK_QUARANTINE
      then thenM (Printf (Msg_DoubleFree ptr))
          (thenM (Printf (Msg_PrintStack stack))
          (thenM (DescribeAddress K m ptr 1)
           show_stats_and_abort))
      else if chunk_state h \<noteq> CHUNK_ALLOCATED
      then thenM (Printf (Msg_FreeNotMalloced ptr))
          (thenM (Printf (Msg_PrintStack stack))
           show_stats_and_abort)
      else returnM ())"

definition Deallocate_enqueue :: "config \<Rightarrow> int option \<Rightarrow> uintptr_t \<Rightarrow> ChunkBase \<Rightarrow> unit M" where
  "Deallocate_enqueue K cur m h =
     (case cur of
        Some t \<Rightarrow>
          thenM (CHECK (next h = 0))
         (thenM (AsanChunkFifoList_Push K (Local t) m)
         (bindM (gets (get_quarantine (Local t))) (\<lambda>q.
          if fifo_size q > kMaxThreadLocalQuarantine then SwallowQuarantine K t
          else returnM ())))
      | None \<Rightarrow>
          thenM (CHECK (next h = 0))
         (BypassThreadLocalQuarantine K m))"

definition Deallocate :: "config \<Rightarrow> int option \<Rightarrow> uintptr_t \<Rightarrow> AsanStackTrace option \<Rightarrow> unit M" where
  "Deallocate K cur ptr stack =
     (if ptr = 0 then returnM () else
      thenM (CHECK (stack \<noteq> None))
     (thenM (whenM (flag_debug K)
               (bindM (FindPageGroup ptr) (\<lambda>g. CHECK (g \<noteq> None))))
     (bindM (PtrToChunk K ptr) (\<lambda>m.
      bindM (deref m) (\<lambda>h.
      thenM (Deallocate_report K m h ptr (the stack))
     (thenM (CHECK (chunk_state h = CHUNK_ALLOCATED))
     (thenM (CHECK (free_tid h = kInvalidTid K))
     (thenM (CHECK (alloc_tid h \<ge> 0))
     (thenM (update_chunk m (\<lambda>h. h\<lparr>free_tid := (case cur of Some t \<Rightarrow> t | None \<Rightarrow> 0)\<rparr>))
     (bindM (liftE (compressed_free_stack K m)) (\<lambda>slot.
      thenM (CompressStack (the stack) slot)
     (bindM (liftE (RoundUpTo (used_size h) (REDZONE K))) (\<lambda>rounded_size.
      thenM (PoisonShadow K ptr rounded_size (kAsanHeapFreeMagic K))
     (thenM (if flag_stats K \<noteq> 0
             then bindM (liftE (Size K h)) (\<lambda>sz.
                  bindM (liftE (Log2 sz)) (\<lambda>l.
                  modify (\<lambda>s. s\<lparr>asan_stats := (asan_stats s)
                    \<lparr>frees := frees (asan_stats s) + 1,
                     freed := freed (asan_stats s) + used_size h,
                     freed_by_size := (freed_by_size (asan_stats s))
                       (unat l := freed_by_size (asan_stats s) (unat l) + 1)\<rparr>\<rparr>)))
             else returnM ())
     (thenM (update_chunk m (\<lambda>h. h\<lparr>chunk_state := CHUNK_QUARANTINE\<rparr>))
     (Deallocate_enqueue K cur m h))))))))))))))))"

definition Reallocate ::
    "config \<Rightarrow> int option \<Rightarrow> uintptr_t \<Rightarrow> size_t \<Rightarrow> AsanStackTrace option \<Rightarrow> uintptr_t M" where
  "Reallocate K cur old_ptr new_size stack =
     (if old_ptr = 0 then Allocate K cur 0 new_size stack
      else if new_size = 0 then returnM 0
      else
        thenM (update_stats K (\<lambda>st. st\<lparr>reallocs := reallocs st + 1,
                                          realloced := realloced st + new_size\<rparr>))
       (bindM (PtrToChunk K old_ptr) (\<lambda>m.
        bindM (deref m) (\<lambda>h.
        thenM (CHECK (chunk_state h = CHUNK_ALLOCATED))
       (let old_size = used_size h;
            memcpy_size = min new_size old_size in
        bindM (Allocate K cur 0 new_size stack) (\<lambda>new_ptr.
        thenM (real_memcpy new_ptr old_ptr memcpy_size)
       (thenM (Deallocate K cur old_ptr stack)
       (returnM new_ptr))))))))"

section \<open>The entry points\<close>

definition asan_memalign ::
    "config \<Rightarrow> int option \<Rightarrow> size_t \<Rightarrow> size_t \<Rightarrow> AsanStackTrace option \<Rightarrow> uintptr_t M" where
  "asan_memalign K cur alignment sz stack = Allocate K cur alignment sz stack"

definition asan_free :: "config \<Rightarrow> int option \<Rightarrow> uintptr_t \<Rightarrow> AsanStackTrace option \<Rightarrow> unit M" where
  "asan_free K cur ptr stack = Deallocate K cur ptr stack"

definition asan_malloc ::
    "config \<Rightarrow> int option \<Rightarrow> size_t \<Rightarrow> AsanStackTrace option \<Rightarrow> uintptr_t M" where
  "asan_malloc K cur sz stack = Allocate K cur 0 sz stack"

definition asan_calloc ::
    "config \<Rightarrow> int option \<Rightarrow> size_t \<Rightarrow> size_t \<Rightarrow> AsanStackTrace option \<Rightarrow> uintptr_t M" where
  "asan_calloc K cur nmemb sz stack =
     bindM (Allocate K cur 0 (nmemb * sz) stack) (\<lambda>res.
     thenM (real_memset res 0 (nmemb * sz))
    (returnM res))"

definition asan_realloc ::
    "config \<Rightarrow> int option \<Rightarrow> uintptr_t \<Rightarrow> size_t \<Rightarrow> AsanStackTrace option \<Rightarrow> uintptr_t M" where
  "asan_realloc K cur p sz stack = Reallocate K cur p sz stack"

definition asan_valloc ::
    "config \<Rightarrow> int option \<Rightarrow> size_t \<Rightarrow> AsanStackTrace option \<Rightarrow> uintptr_t M" where
  "asan_valloc K cur sz stack = Allocate K cur (kPageSize K) sz stack"

definition asan_pvalloc ::
    "config \<Rightarrow> int option \<Rightarrow> size_t \<Rightarrow> AsanStackTrace option \<Rightarrow> uintptr_t M" where
  "asan_pvalloc K cur sz stack =
     bindM (liftE (RoundUpTo sz (kPageSize K))) (\<lambda>sz'.
     Allocate K cur (kPageSize K) (if sz' = 0 then kPageSize K else sz') stack)"

definition asan_posix_memalign ::
    "config \<Rightarrow> int option \<Rightarrow> size_t \<Rightarrow> size_t \<Rightarrow> AsanStackTrace option
       \<Rightarrow> (int \<times> uintptr_t) M" where
  "asan_posix_memalign K cur alignment sz stack =
     bindM (Allocate K cur alignment sz stack) (\<lambda>memptr.
     thenM (CHECK (IsAligned memptr alignment))
    (returnM (0, memptr)))"

definition asan_mz_size :: "config \<Rightarrow> uintptr_t \<Rightarrow> size_t M" where
  "asan_mz_size K ptr = AllocationSize K ptr"

definition asan_total_mmaped :: "size_t M" where
  "asan_total_mmaped = gets total_mmaped"


section \<open>The fake stack\<close>

text \<open>
  Modelled from the spec: \<open>AsanFakeStack::ClassSize\<close> is declared in asan_allocator.h, outside
  the two files; the specification gives \<open>ClassSize(c) = 1 << (kMinStackFrameSizeLog + c)\<close>.
\<close>

definition ClassSize :: "config \<Rightarrow> size_t \<Rightarrow> error + size_t" where
  "ClassSize K c =
     (if unat (kMinStackFrameSizeLog K + c) \<ge> 64 then Inl Undefined
      else Inr (push_bit (unat (kMinStackFrameSizeLog K + c)) 1))"

definition get_fake_stack :: "int \<Rightarrow> state \<Rightarrow> AsanFakeStack" where
  "get_fake_stack x s = FakeStack (threads s x)"

definition set_fake_stack :: "int \<Rightarrow> AsanFakeStack \<Rightarrow> state \<Rightarrow> state" where
  "set_fake_stack x f s = s\<lparr>threads := (threads s)(x := (threads s x)\<lparr>FakeStack := f\<rparr>)\<rparr>"

definition ClassMmapSize :: "AsanFakeStack \<Rightarrow> size_t \<Rightarrow> error + size_t" where
  "ClassMmapSize f c = RoundUpToPowerOfTwo (stack_size f)"

definition AddrIsInSizeClass :: "AsanFakeStack \<Rightarrow> uintptr_t \<Rightarrow> size_t \<Rightarrow> error + bool" where
  "AddrIsInSizeClass f addr c =
     (let mem = allocated_size_classes f (unat c) in
      bindE (ClassMmapSize f c) (\<lambda>sz.
        Inr (mem \<noteq> 0 \<and> addr \<ge> mem \<and> addr < mem + sz)))"

fun AddrIsInFakeStack_loop :: "AsanFakeStack \<Rightarrow> uintptr_t \<Rightarrow> nat list \<Rightarrow> error + uintptr_t" where
  "AddrIsInFakeStack_loop f addr [] = Inr 0"
| "AddrIsInFakeStack_loop f addr (i # is) =
     bindE (AddrIsInSizeClass f addr (of_nat i)) (\<lambda>b.
       if b then Inr (allocated_size_classes f i) else AddrIsInFakeStack_loop f addr is)"

definition AddrIsInFakeStack :: "config \<Rightarrow> AsanFakeStack \<Rightarrow> uintptr_t \<Rightarrow> error + uintptr_t" where
  "AddrIsInFakeStack K f addr =
     AddrIsInFakeStack_loop f addr [0..<unat (kFakeStackNumberOfSizeClasses K)]"

definition ComputeSizeClass :: "config \<Rightarrow> size_t \<Rightarrow> error + size_t" where
  "ComputeSizeClass K alloc_size =
     bindE (RoundUpToPowerOfTwo alloc_size) (\<lambda>rounded_size.
     bindE (Log2 rounded_size) (\<lambda>lg.
       if unat lg \<ge> 64 then Inl Undefined
       else if \<not> alloc_size \<le> push_bit (unat lg) 1 then Inl CheckFailed
       else if unat (lg - 1) \<ge> 64 then Inl Undefined
       else if \<not> alloc_size > push_bit (unat (lg - 1)) 1 then Inl CheckFailed
       else let res = (if lg < kMinStackFrameSizeLog K then 0 else lg - kMinStackFrameSizeLog K) in
         if \<not> res < kFakeStackNumberOfSizeClasses K then Inl CheckFailed
         else bindE (ClassSize K res) (\<lambda>cs.
           if cs \<ge> rounded_size then Inr res else Inl CheckFailed)))"

definition FifoPush :: "int \<Rightarrow> nat \<Rightarrow> uintptr_t \<Rightarrow> unit M" where
  "FifoPush x c a =
     thenM (CHECK (a \<noteq> 0))
    (thenM (modify (\<lambda>s. s\<lparr>fifo_nodes := (fifo_nodes s)(a := 0)\<rparr>))
    (bindM (gets (\<lambda>s. size_classes (get_fake_stack x s) c)) (\<lambda>l.
     if node_first l = 0 \<and> node_last l = 0
     then modify (\<lambda>s. set_fake_stack x ((get_fake_stack x s)
            \<lparr>size_classes := (size_classes (get_fake_stack x s))
               (c := \<lparr>node_first = a, node_last = a\<rparr>)\<rparr>) s)
     else thenM (CHECK (node_first l \<noteq> 0))
         (thenM (CHECK (node_last l \<noteq> 0))
         (thenM (modify (\<lambda>s. s\<lparr>fifo_nodes := (fifo_nodes s)(node_last l := a)\<rparr>))
         (modify (\<lambda>s. set_fake_stack x ((get_fake_stack x s)
            \<lparr>size_classes := (size_classes (get_fake_stack x s))
               (c := l\<lparr>node_last := a\<rparr>)\<rparr>) s)))))))"

definition FifoPop :: "int \<Rightarrow> nat \<Rightarrow> uintptr_t M" where
  "FifoPop x c =
     bindM (gets (\<lambda>s. size_classes (get_fake_stack x s) c)) (\<lambda>l.
     thenM (CHECK (node_first l \<noteq> 0 \<and> node_last l \<noteq> 0))
    (if node_first l = node_last l
     then thenM (modify (\<lambda>s. set_fake_stack x ((get_fake_stack x s)
                   \<lparr>size_classes := (size_classes (get_fake_stack x s))
                      (c := \<lparr>node_first = 0, node_last = 0\<rparr>)\<rparr>) s))
         (returnM (node_first l))
     else bindM (gets (\<lambda>s. fifo_nodes s (node_first l))) (\<lambda>n.
          thenM (modify (\<lambda>s. set_fake_stack x ((get_fake_stack x s)
                   \<lparr>size_classes := (size_classes (get_fake_stack x s))
                      (c := l\<lparr>node_first := n\<rparr>)\<rparr>) s))
         (returnM (node_first l)))))"

definition Init :: "int \<Rightarrow> size_t \<Rightarrow> unit M" where
  "Init x sz = modify (\<lambda>s. set_fake_stack x ((get_fake_stack x s)\<lparr>stack_size := sz, alive := True\<rparr>) s)"

fun FifoPush_all :: "int \<Rightarrow> nat \<Rightarrow> uintptr_t list \<Rightarrow> unit M" where
  "FifoPush_all x c [] = returnM ()"
| "FifoPush_all x c (a # as) = thenM (FifoPush x c a) (FifoPush_all x c as)"

text \<open>
  \<open>for (i = 0; i < ClassMmapSize; i += ClassSize) FifoPush(new_mem + i)\<close>: the mapping size
  and the class size are powers of two of at most \<open>2^63\<close>, so \<open>i\<close> never wraps and the loop
  runs \<open>ceil(ClassMmapSize / ClassSize)\<close> times, leaving \<open>i\<close> at that many class sizes.
\<close>

definition AllocateOneSizeClass :: "config \<Rightarrow> int \<Rightarrow> size_t \<Rightarrow> unit M" where
  "AllocateOneSizeClass K x c =
     bindM (gets (get_fake_stack x)) (\<lambda>f.
     bindM (liftE (ClassMmapSize f c)) (\<lambda>mmap_size.
     thenM (CHECK (mmap_size \<ge> kPageSize K))
    (bindM (asan_mmap mmap_size) (\<lambda>new_mem.
     thenM (CHECK (new_mem \<noteq> - 1))
    (bindM (liftE (ClassSize K c)) (\<lambda>cs.
     let n = (unat mmap_size + unat cs - 1) div unat cs in
     thenM (FifoPush_all x (unat c) (map (\<lambda>k. new_mem + of_nat k * cs) [0..<n]))
    (thenM (CHECK (of_nat n * cs = mmap_size))
    (modify (\<lambda>s. set_fake_stack x ((get_fake_stack x s)
       \<lparr>allocated_size_classes := (allocated_size_classes (get_fake_stack x s))
          (unat c := new_mem)\<rparr>) s)))))))))"

definition AllocateStack :: "config \<Rightarrow> int \<Rightarrow> size_t \<Rightarrow> uintptr_t M" where
  "AllocateStack K x sz =
     bindM (gets (get_fake_stack x)) (\<lambda>f.
     thenM (CHECK (alive f))
    (thenM (CHECK (sz \<le> kMaxStackMallocSize K))
    (bindM (liftE (ComputeSizeClass K sz)) (\<lambda>c.
     thenM (whenM (allocated_size_classes f (unat c) = 0) (AllocateOneSizeClass K x c))
    (bindM (FifoPop x (unat c)) (\<lambda>ptr.
     thenM (CHECK (ptr \<noteq> 0))
    (thenM (PoisonShadow K ptr sz 0)
    (returnM ptr))))))))"

definition DeallocateStack :: "config \<Rightarrow> int \<Rightarrow> uintptr_t \<Rightarrow> size_t \<Rightarrow> unit M" where
  "DeallocateStack K x ptr sz =
     bindM (gets (get_fake_stack x)) (\<lambda>f.
     thenM (CHECK (alive f))
    (bindM (liftE (ComputeSizeClass K sz)) (\<lambda>c.
     thenM (CHECK (allocated_size_classes f (unat c) \<noteq> 0))
    (bindM (liftE (AddrIsInSizeClass f ptr c)) (\<lambda>b1.
     thenM (CHECK b1)
    (bindM (liftE (AddrIsInSizeClass f (ptr + sz - 1) c)) (\<lambda>b2.
     thenM (CHECK b2)
    (thenM (PoisonShadow K ptr sz (kAsanStackAfterReturnMagic K))
    (FifoPush x (unat c) ptr)))))))))"

definition asan_stack_malloc :: "config \<Rightarrow> int option \<Rightarrow> size_t \<Rightarrow> size_t \<Rightarrow> size_t M" where
  "asan_stack_malloc K cur sz real_stack =
     (case cur of
        None \<Rightarrow> returnM real_stack
      | Some t \<Rightarrow> bindM (AllocateStack K t sz) (\<lambda>ptr. returnM ptr))"

definition asan_stack_free :: "config \<Rightarrow> int option \<Rightarrow> size_t \<Rightarrow> size_t \<Rightarrow> size_t \<Rightarrow> unit M" where
  "asan_stack_free K cur ptr sz real_stack =
     (if ptr = real_stack then returnM ()
      else case cur of
        None \<Rightarrow> returnM ()
      | Some t \<Rightarrow> DeallocateStack K t ptr sz)"

section \<open>An example configuration and the initial state\<close>

text \<open>
  One configuration within the ranges the specification gives: 4 KiB pages, a shadow
  granularity of 8, a redzone of 128 bytes, a quarantine budget of 256 MiB, statistics and
  debugging off. It is used for concrete runs only; the theorems hold for every configuration
  that meets their hypotheses.
\<close>

definition example_config :: config where
  "example_config =
     \<lparr>kNumberOfSizeClasses = 255, kPageSize = 4096, SHADOW_GRANULARITY = 8,
      MemToShadow = (\<lambda>a. drop_bit 3 a OR push_bit 44 1),
      kAsanHeapLeftRedzoneMagic = 0xfa, kAsanHeapRightRedzoneMagic = 0xfb,
      kAsanHeapFreeMagic = 0xfd, kAsanStackAfterReturnMagic = 0xf5,
      PoisonShadowPartialRightRedzone = (\<lambda>shadow sz redzone_size granularity magic b.
        (\<lambda>a. if a - shadow < redzone_size div granularity
              then (let i = (a - shadow) * granularity in
                    if i + granularity \<le> sz then 0
                    else if i \<ge> sz then (if granularity = 128 then 0xff else magic)
                    else ucast (sz - i))
              else b a)),
      kInvalidTid = - 1, kMinStackFrameSizeLog = 9, kFakeStackNumberOfSizeClasses = 8,
      kMaxStackMallocSize = 65536,
      flag_redzone = 128, flag_quarantine_size = 268435456, flag_stats = 0,
      flag_debug = False, flag_v = 0\<rparr>"

definition empty_fifo :: AsanChunkFifoList where
  "empty_fifo = \<lparr>fifo_first = 0, fifo_last = 0, fifo_size = 0\<rparr>"

definition empty_chunk :: ChunkBase where
  "empty_chunk = \<lparr>chunk_state = 0, size_class = 0, offset = 0, alloc_tid = 0, free_tid = 0,
                  used_size = 0, next = 0\<rparr>"

definition empty_stats :: AsanStats where
  "empty_stats = \<lparr>mallocs = 0, malloced = 0, malloced_redzones = 0, malloced_by_size = (\<lambda>_. 0),
     allocated_since_last_stats = 0, malloc_large = 0, malloc_small_slow = 0, frees = 0,
     freed = 0, freed_by_size = (\<lambda>_. 0), real_frees = 0, really_freed = 0,
     really_freed_by_size = (\<lambda>_. 0), reallocs = 0, realloced = 0, mmaps = 0, mmaped = 0,
     mmaped_by_size = (\<lambda>_. 0)\<rparr>"

definition empty_thread :: AsanThread where
  "empty_thread =
     \<lparr>malloc_storage = \<lparr>quarantine = empty_fifo, free_lists = (\<lambda>_. 0)\<rparr>,
      FakeStack = \<lparr>stack_size = 0, alive = False, allocated_size_classes = (\<lambda>_. 0),
                   size_classes = (\<lambda>_. \<lparr>node_first = 0, node_last = 0\<rparr>)\<rparr>\<rparr>"

text \<open>
  The state before the first call: zeroed static storage, nothing mapped. \<open>os\<close> is what the
  operating system will answer to the coming \<open>mmap\<close> calls.
\<close>

definition init_state :: "(size_t \<Rightarrow> uintptr_t) list \<Rightarrow> state" where
  "init_state os =
     \<lparr>heap = (\<lambda>_. empty_chunk), bytes = (\<lambda>_. 0), stack_slots = (\<lambda>_. []), fifo_nodes = (\<lambda>_. 0),
      malloc_info = \<lparr>quarantine = empty_fifo, free_lists = (\<lambda>_. 0), page_groups = []\<rparr>,
      total_mmaped = 0, asan_stats = empty_stats, threads = (\<lambda>_. empty_thread), out = [],
      os_mmap = os\<rparr>"


section \<open>Size classes (C7)\<close>

text \<open>
  C7. For every size from 1 to \<open>kMaxAllowedMallocSize\<close>, \<open>SizeToSizeClass\<close> returns the class
  the specification's rule \<open>class_of_spec\<close> gives (the ceiling of the binary logarithm up to
  \<open>2^26\<close>, the ceiling of size / \<open>2^26\<close> plus 26 beyond), and \<open>SizeClassToSize\<close> of that class
  is at least the size. \<open>kNumberOfSizeClasses\<close> comes from a header outside the source files;
  the classes of the sizes up to 8 GiB go up to 154, so it has to exceed that.
\<close>

theorem SizeToSizeClass_spec:
  assumes "154 < unat (kNumberOfSizeClasses K)" and "1 \<le> sz" and "sz \<le> kMaxAllowedMallocSize"
  shows "\<exists>c s. SizeToSizeClass K sz = Inr c \<and> unat c = class_of_spec (unat sz)
            \<and> SizeClassToSize K c = Inr s \<and> sz \<le> s"
proof -
  have nz: "sz \<noteq> 0" using assms(2) by auto
  then have npos: "0 < unat sz" by (simp add: unat_gt_0)
  show ?thesis
  proof (cases "sz \<le> kMallocSizeClassStep")
    case True
    then have "unat sz \<le> 2 ^ 26"
      by (simp add: word_le_nat_alt kMallocSizeClassStep_def kMallocSizeClassStepLog_def)
    then show ?thesis
      using SizeToSizeClass_small[OF assms(1) nz True] npos by (simp add: class_of_spec_code)
  next
    case False
    then have gt: "kMallocSizeClassStep < sz" by simp
    then have "\<not> unat sz \<le> 2 ^ 26"
      by (simp add: word_less_nat_alt kMallocSizeClassStep_def kMallocSizeClassStepLog_def)
    then show ?thesis
      using SizeToSizeClass_large[OF assms(1) gt assms(3)] npos by (simp add: class_of_spec_code)
  qed
qed

theorem SizeToSizeClass_spec_witness:
  "154 < unat (kNumberOfSizeClasses example_config) \<and> (1::64 word) \<le> 100
     \<and> (100::64 word) \<le> kMaxAllowedMallocSize
     \<and> (\<exists>c s. SizeToSizeClass example_config 100 = Inr c
           \<and> unat c = class_of_spec (unat (100::64 word))
           \<and> SizeClassToSize example_config c = Inr s \<and> 100 \<le> s)"
  using SizeToSizeClass_spec[of example_config 100]
  by (simp add: example_config_def kMaxAllowedMallocSize_def)

section \<open>Reallocate to size zero (C6)\<close>

text \<open>
  C6. \<open>Reallocate(old, 0, stack)\<close> with a non-null \<open>old\<close> returns null and changes nothing: the
  state after the call is the state before it, so the chunk that owns \<open>old\<close> keeps its state,
  its \<open>used_size\<close> and its shadow, no quarantine receives it and not even a statistic moves.
\<close>

theorem Reallocate_zero_keeps_state:
  "old_ptr \<noteq> 0 \<Longrightarrow> Reallocate K cur old_ptr 0 stack s = Inr (0, s)"
  by (simp add: Reallocate_def returnM_def)

theorem Reallocate_zero_keeps_state_witness:
  "(4224 :: uintptr_t) \<noteq> 0
     \<and> Reallocate example_config (Some 1) 4224 0 (Some []) (init_state []) = Inr (0, init_state [])"
  using Reallocate_zero_keeps_state[of 4224 example_config "Some 1" "Some []" "init_state []"]
  by simp

section \<open>The real stack as the fake stack's fallback (C9)\<close>

text \<open>
  C9. \<open>__asan_stack_malloc(size, real_stack)\<close> returns \<open>real_stack\<close> itself when there is no
  current thread, and \<open>__asan_stack_free(ptr, size, real_stack)\<close> with \<open>ptr = real_stack\<close>
  changes nothing, whatever the current thread: no shadow byte is written and no frame is
  pushed, since the state after each call is the state before it.
\<close>

theorem stack_malloc_free_real_stack:
  "asan_stack_malloc K None sz real_stack s = Inr (real_stack, s)
     \<and> asan_stack_free K cur real_stack sz real_stack s = Inr ((), s)"
  by (simp add: asan_stack_malloc_def asan_stack_free_def returnM_def)

theorem stack_malloc_free_real_stack_witness:
  "asan_stack_malloc example_config None 256 140737488351232 (init_state [])
       = Inr (140737488351232, init_state [])
     \<and> asan_stack_free example_config (Some 1) 140737488351232 256 140737488351232 (init_state [])
       = Inr ((), init_state [])"
  using stack_malloc_free_real_stack[of example_config 256 140737488351232 "init_state []" "Some 1"]
  by simp

section \<open>Freeing what is not allocated (C4)\<close>

lemma DescribeAddress_out:
  assumes "m \<noteq> 0" "ucast (size_class (heap s m)) < kNumberOfSizeClasses K"
  shows "\<exists>pos. DescribeAddress K m addr n s =
     Inr ((), s\<lparr>out := out s @ [Msg_Located addr, pos,
        Msg_Region (used_size (heap s m)) (beg m (heap s m)) (beg m (heap s m) + used_size (heap s m))]\<rparr>)"
  using assms
  by (auto simp: DescribeAddress_def monad_defs AddrIsAtRight_def Size_def SizeClassToSize_def
      bindE_def split: option.splits)

text \<open>
  C4, as the code has it. \<open>Deallocate(ptr, stack)\<close> with a non-null \<open>ptr\<close> and a non-null
  \<open>stack\<close>, where \<open>ptr\<close> resolves to the chunk \<open>m\<close> and either the debug flag is off or \<open>ptr\<close>
  lies in a registered page group: if \<open>m\<close> is Quarantined (and its size class is one of the
  table's), the call prints the double-free message, the stack and the description of the
  address, then the statistics, and aborts; if \<open>m\<close> is neither Quarantined nor Allocated it
  prints the free-of-non-malloced message, the stack and the statistics, and aborts. In both
  cases the state at the abort differs from the state before the call in the output only, so
  no chunk field is modified.
\<close>

theorem Deallocate_error_paths:
  assumes "ptr \<noteq> 0" and "PtrToChunk K ptr s = Inr (m, s)" and "m \<noteq> 0"
    and "flag_debug K \<longrightarrow> FindPageGroupUnlocked (page_groups (malloc_info s)) ptr \<noteq> None"
  shows "(chunk_state (heap s m) = CHUNK_QUARANTINE
           \<and> ucast (size_class (heap s m)) < kNumberOfSizeClasses K \<longrightarrow>
          (\<exists>pos. Deallocate K cur ptr (Some st) s =
             Inl (Aborted, s\<lparr>out := out s @ [Msg_DoubleFree ptr, Msg_PrintStack st, Msg_Located ptr,
               pos, Msg_Region (used_size (heap s m)) (beg m (heap s m))
                      (beg m (heap s m) + used_size (heap s m)),
               Msg_ShowStats]\<rparr>)))
       \<and> (chunk_state (heap s m) \<noteq> CHUNK_QUARANTINE \<and> chunk_state (heap s m) \<noteq> CHUNK_ALLOCATED \<longrightarrow>
          Deallocate K cur ptr (Some st) s =
             Inl (Aborted, s\<lparr>out := out s @ [Msg_FreeNotMalloced ptr, Msg_PrintStack st,
               Msg_ShowStats]\<rparr>))"
proof (intro conjI impI)
  from assms(2) have r: "ptr - REDZONE K \<noteq> 0"
    and m: "m = (if chunk_state (heap s (ptr - REDZONE K)) = CHUNK_MEMALIGN
            then next (heap s (ptr - REDZONE K)) else ptr - REDZONE K)"
    by (simp_all add: PtrToChunk_Inr)
  {
    assume q: "chunk_state (heap s m) = CHUNK_QUARANTINE
             \<and> ucast (size_class (heap s m)) < kNumberOfSizeClasses K"
    define s1 where "s1 = s\<lparr>out := out s @ [Msg_DoubleFree ptr, Msg_PrintStack st]\<rparr>"
    have h1: "heap s1 = heap s" by (simp add: s1_def)
    from DescribeAddress_out[of m s1 K ptr 1] assms(3) q
    obtain pos where d: "DescribeAddress K m ptr 1 s1 =
       Inr ((), s1\<lparr>out := out s1 @ [Msg_Located ptr, pos,
          Msg_Region (used_size (heap s m)) (beg m (heap s m))
            (beg m (heap s m) + used_size (heap s m))]\<rparr>)"
      by (auto simp: h1)
    have "Deallocate K cur ptr (Some st) s =
               Inl (Aborted, s\<lparr>out := out s @ [Msg_DoubleFree ptr, Msg_PrintStack st, Msg_Located ptr,
                 pos, Msg_Region (used_size (heap s m)) (beg m (heap s m))
                        (beg m (heap s m) + used_size (heap s m)),
                 Msg_ShowStats]\<rparr>)"
      using assms(1,3,4) r q d unfolding m
      by (simp add: Deallocate_def Deallocate_report_def PtrToChunk_def FindPageGroup_def show_stats_and_abort_def
          monad_defs s1_def)
    then show "\<exists>pos. Deallocate K cur ptr (Some st) s =
               Inl (Aborted, s\<lparr>out := out s @ [Msg_DoubleFree ptr, Msg_PrintStack st, Msg_Located ptr,
                 pos, Msg_Region (used_size (heap s m)) (beg m (heap s m))
                        (beg m (heap s m) + used_size (heap s m)),
                 Msg_ShowStats]\<rparr>)" ..
  }
  {
    assume "chunk_state (heap s m) \<noteq> CHUNK_QUARANTINE \<and> chunk_state (heap s m) \<noteq> CHUNK_ALLOCATED"
    then show "Deallocate K cur ptr (Some st) s =
               Inl (Aborted, s\<lparr>out := out s @ [Msg_FreeNotMalloced ptr, Msg_PrintStack st,
                 Msg_ShowStats]\<rparr>)"
      using assms(1,3,4) r unfolding m
      by (simp add: Deallocate_def Deallocate_report_def PtrToChunk_def FindPageGroup_def show_stats_and_abort_def
          monad_defs)
  }
qed

text \<open>
  A state in which the chunk at 4096 is quarantined with a 32-byte body, and the double free
  of its user pointer 4224 under the example configuration.
\<close>

definition quarantined_example :: state where
  "quarantined_example = (init_state [])\<lparr>heap := (heap (init_state []))
     (4096 := \<lparr>chunk_state = CHUNK_QUARANTINE, size_class = 8, offset = 128, alloc_tid = 0,
               free_tid = 0, used_size = 32, next = 0\<rparr>)\<rparr>"

theorem Deallocate_error_paths_witness:
  "(4224 :: uintptr_t) \<noteq> 0
     \<and> PtrToChunk example_config 4224 quarantined_example = Inr (4096, quarantined_example)
     \<and> chunk_state (heap quarantined_example 4096) = CHUNK_QUARANTINE
     \<and> Deallocate example_config None 4224 (Some [1, 2]) quarantined_example =
         Inl (Aborted, quarantined_example\<lparr>out := [Msg_DoubleFree 4224, Msg_PrintStack [1, 2],
               Msg_Located 4224, Msg_Inside 0, Msg_Region 32 4224 4256, Msg_ShowStats]\<rparr>)
     \<and> Deallocate example_config None 4224 (Some [1, 2]) (init_state []) =
         Inl (Aborted, (init_state [])\<lparr>out := [Msg_FreeNotMalloced 4224, Msg_PrintStack [1, 2],
               Msg_ShowStats]\<rparr>)"
proof -
  have p: "PtrToChunk example_config 4224 quarantined_example = Inr (4096, quarantined_example)"
    by (simp add: PtrToChunk_Inr quarantined_example_def init_state_def example_config_def
        REDZONE_def CHUNK_QUARANTINE_def CHUNK_MEMALIGN_def)
  have p0: "PtrToChunk example_config 4224 (init_state []) = Inr (4096, init_state [])"
    by (simp add: PtrToChunk_Inr init_state_def example_config_def REDZONE_def empty_chunk_def
        CHUNK_MEMALIGN_def)
  have d: "\<not> flag_debug example_config" by (simp add: example_config_def)
  have q: "chunk_state (heap quarantined_example 4096) = CHUNK_QUARANTINE"
    by (simp add: quarantined_example_def)
  have c: "ucast (size_class (heap quarantined_example 4096)) < kNumberOfSizeClasses example_config"
    by (simp add: quarantined_example_def example_config_def)
  have n: "chunk_state (heap (init_state []) 4096) \<noteq> CHUNK_QUARANTINE
          \<and> chunk_state (heap (init_state []) 4096) \<noteq> CHUNK_ALLOCATED"
    by (simp add: init_state_def empty_chunk_def CHUNK_QUARANTINE_def CHUNK_ALLOCATED_def)
  from Deallocate_error_paths[of 4224 example_config quarantined_example 4096 None "[1, 2]"] p d q c
  obtain pos where 1: "Deallocate example_config None 4224 (Some [1, 2]) quarantined_example =
         Inl (Aborted, quarantined_example\<lparr>out := out quarantined_example @
           [Msg_DoubleFree 4224, Msg_PrintStack [1, 2], Msg_Located 4224, pos,
            Msg_Region (used_size (heap quarantined_example 4096))
              (beg 4096 (heap quarantined_example 4096))
              (beg 4096 (heap quarantined_example 4096) + used_size (heap quarantined_example 4096)),
            Msg_ShowStats]\<rparr>)"
    by auto
  have e: "Deallocate example_config None 4224 (Some [1, 2]) quarantined_example =
         Inl (Aborted, quarantined_example\<lparr>out := [Msg_DoubleFree 4224, Msg_PrintStack [1, 2],
               Msg_Located 4224, Msg_Inside 0, Msg_Region 32 4224 4256, Msg_ShowStats]\<rparr>)"
    by (simp add: Deallocate_def Deallocate_report_def PtrToChunk_def FindPageGroup_def show_stats_and_abort_def
        DescribeAddress_def AddrIsInside_def beg_def monad_defs
        quarantined_example_def init_state_def example_config_def REDZONE_def
        CHUNK_QUARANTINE_def CHUNK_MEMALIGN_def)
  from Deallocate_error_paths[of 4224 example_config "init_state []" 4096 None "[1, 2]"] p0 d n
  have 2: "Deallocate example_config None 4224 (Some [1, 2]) (init_state []) =
         Inl (Aborted, (init_state [])\<lparr>out := out (init_state []) @
           [Msg_FreeNotMalloced 4224, Msg_PrintStack [1, 2], Msg_ShowStats]\<rparr>)"
    by simp
  have o: "out (init_state []) = []" by (simp add: init_state_def)
  show ?thesis using p q e 2 o 1 by simp
qed

text \<open>
  The claim as stated fails under the debug flag: freeing the never-allocated pointer 4224,
  which lies in no page group, stops at the failed \<open>CHECK\<close> and prints no diagnostic, although
  the header it resolves to is neither Quarantined nor Allocated.
\<close>

theorem Deallocate_debug_counterexample:
  "(4224 :: uintptr_t) \<noteq> 0
     \<and> PtrToChunk (example_config\<lparr>flag_debug := True\<rparr>) 4224 (init_state []) = Inr (4096, init_state [])
     \<and> chunk_state (heap (init_state []) 4096) \<noteq> CHUNK_QUARANTINE
     \<and> chunk_state (heap (init_state []) 4096) \<noteq> CHUNK_ALLOCATED
     \<and> Deallocate (example_config\<lparr>flag_debug := True\<rparr>) None 4224 (Some [1, 2]) (init_state [])
         = Inl (CheckFailed, init_state [])"
  by (simp add: PtrToChunk_Inr Deallocate_def Deallocate_report_def FindPageGroup_def monad_defs
      init_state_def example_config_def REDZONE_def empty_chunk_def
      CHUNK_QUARANTINE_def CHUNK_ALLOCATED_def CHUNK_MEMALIGN_def)


section \<open>Leaving the quarantine (C1)\<close>
















end
